theory Spec2Isabelle
  imports Main
begin

section \<open>JavaScript values and built-ins used by the cache policy\<close>

text \<open>
  The module under study is the request-utils part of \<^verbatim>\<open>src/packages/ember/package.json\<close>
  (lines 653 to 1367): the Cache-Control parser, \<^verbatim>\<open>isExpired\<close> and the class
  \<^verbatim>\<open>CachePolicy\<close>.

  Conventions of the embedding.
  \<^item> A thrown exception is the left summand of \<open>error + 'a\<close>.
  \<^item> A time in epoch milliseconds (the clock, the value of a date, a configured duration)
    is an integer, or \<^verbatim>\<open>NaN\<close> for a string that is not a date: an \<open>int option\<close> with
    \<open>None\<close> for \<^verbatim>\<open>NaN\<close>.
  \<^item> The numbers that \<^verbatim>\<open>parseInt\<close> returns, and the arithmetic of the Cache-Control check
    on them, are IEEE doubles with an integer value, \<^verbatim>\<open>NaN\<close> or an infinity: the type
    \<open>double\<close>, with rounding to 53 significant bits written out. The sign of zero is
    not kept; no comparison or condition of the module depends on it.
  \<^item> A string is a list of code units below 256.
  \<^item> \<^verbatim>\<open>assert\<close> is imported from \<^verbatim>\<open>@warp-drive/build-config/macros\<close>, which is not
    among the sources. It is a build macro: with assertions compiled in it throws when
    its condition is falsy, and a production build strips the call. The source relies on
    both behaviours (\<^verbatim>\<open>parseCacheControlValue\<close> asserts a condition and then handles
    its failure), so the build flag is a parameter \<open>dbg\<close> of every function that asserts.
\<close>

text \<open>
  \<open>AssertionFailed\<close> carries the message that the source passes to \<^verbatim>\<open>assert\<close>.
\<close>

datatype error = AssertionFailed string | TypeError string

type_synonym number = "int option"

text \<open>\<^verbatim>\<open>a >= b\<close> on numbers: false as soon as one side is \<^verbatim>\<open>NaN\<close>.\<close>

definition num_ge :: "int \<Rightarrow> number \<Rightarrow> bool" where
  "num_ge a b = (case b of None \<Rightarrow> False | Some y \<Rightarrow> y \<le> a)"

text \<open>\<^verbatim>\<open>a + b\<close> where \<open>a\<close> may be \<^verbatim>\<open>NaN\<close>.\<close>

definition num_add :: "number \<Rightarrow> int \<Rightarrow> number" where
  "num_add a b = (case a of None \<Rightarrow> None | Some x \<Rightarrow> Some (x + b))"

subsection \<open>Doubles with an integer value\<close>

text \<open>
  A double holds every integer up to \<open>2^53 = 9007199254740992\<close> in magnitude exactly.
  A larger integer is rounded to 53 significant bits, to the nearest double and to the
  even one of two that are equally near; from \<open>2^1024\<close> on the result is an infinity.
  \<open>shift53 n\<close> is the number of low bits of \<open>n\<close> that do not fit.
\<close>

datatype double = NaN | PosInfinity | NegInfinity | Fin int

function shift53 :: "nat \<Rightarrow> nat" where
  "shift53 n = (if n < 9007199254740992 then 0 else Suc (shift53 (n div 2)))"
  by pat_completeness auto
termination
  by (relation "measure id") auto

declare shift53.simps [simp del]

definition round53 :: "nat \<Rightarrow> nat" where
  "round53 n =
     (if shift53 n = 0 then n
      else if 2 ^ shift53 n < 2 * (n mod 2 ^ shift53 n) \<or>
              (2 * (n mod 2 ^ shift53 n) = 2 ^ shift53 n \<and> odd (n div 2 ^ shift53 n))
           then (n div 2 ^ shift53 n + 1) * 2 ^ shift53 n
           else (n div 2 ^ shift53 n) * 2 ^ shift53 n)"

text \<open>The double nearest to an integer.\<close>

definition fl :: "int \<Rightarrow> double" where
  "fl x =
     (if 2 ^ 1024 \<le> round53 (nat \<bar>x\<bar>) then (if x < 0 then NegInfinity else PosInfinity)
      else Fin (if x < 0 then - int (round53 (nat \<bar>x\<bar>)) else int (round53 (nat \<bar>x\<bar>))))"

text \<open>
  The operations of the Cache-Control check: \<^verbatim>\<open>maxAge - ageValue\<close>, \<^verbatim>\<open>... * 1000\<close>,
  \<^verbatim>\<open>dateValue + ...\<close> with the value of a date, and \<^verbatim>\<open>now >= expirationTime\<close>.
\<close>

definition d_sub :: "double \<Rightarrow> double \<Rightarrow> double" where
  "d_sub x y =
     (case x of
        NaN \<Rightarrow> NaN
      | Fin a \<Rightarrow>
          (case y of
             NaN \<Rightarrow> NaN | Fin b \<Rightarrow> fl (a - b)
           | PosInfinity \<Rightarrow> NegInfinity | NegInfinity \<Rightarrow> PosInfinity)
      | PosInfinity \<Rightarrow> (case y of NaN \<Rightarrow> NaN | PosInfinity \<Rightarrow> NaN | _ \<Rightarrow> PosInfinity)
      | NegInfinity \<Rightarrow> (case y of NaN \<Rightarrow> NaN | NegInfinity \<Rightarrow> NaN | _ \<Rightarrow> NegInfinity))"

definition times_1000 :: "double \<Rightarrow> double" where
  "times_1000 x = (case x of Fin a \<Rightarrow> fl (a * 1000) | _ \<Rightarrow> x)"

definition d_add :: "number \<Rightarrow> double \<Rightarrow> double" where
  "d_add dateValue x =
     (case dateValue of
        None \<Rightarrow> NaN
      | Some t \<Rightarrow> (case x of Fin b \<Rightarrow> fl (t + b) | _ \<Rightarrow> x))"

definition d_ge :: "int \<Rightarrow> double \<Rightarrow> bool" where
  "d_ge a x = (case x of Fin b \<Rightarrow> b \<le> a | NegInfinity \<Rightarrow> True | _ \<Rightarrow> False)"

subsection \<open>parseInt\<close>

text \<open>
  ECMAScript \<^verbatim>\<open>parseInt(string, radix)\<close>: leading white space is dropped, then an
  optional sign, then (radix absent or 16) an optional \<^verbatim>\<open>0x\<close> prefix; the longest
  prefix of digits of the radix is read; no digit gives \<^verbatim>\<open>NaN\<close>. \<open>mathInt\<close> is the
  mathematical integer the digits denote, and the result is the double nearest to it
  with the sign. (For more than 20 decimal digits ECMAScript lets an implementation
  read the digits after the 20th as zeros; the model reads them all.)
\<close>

definition StrWhiteSpaceChar :: "char \<Rightarrow> bool" where
  "StrWhiteSpaceChar c =
     (c \<in> set [CHR 0x09, CHR 0x0A, CHR 0x0B, CHR 0x0C, CHR 0x0D, CHR 0x20, CHR 0xA0])"

definition digit_value :: "char \<Rightarrow> nat option" where
  "digit_value c =
     (let n = (of_char c :: nat) in
      if 48 \<le> n \<and> n \<le> 57 then Some (n - 48)
      else if 97 \<le> n \<and> n \<le> 122 then Some (n - 87)
      else if 65 \<le> n \<and> n \<le> 90 then Some (n - 55)
      else None)"

definition is_digit :: "nat \<Rightarrow> char \<Rightarrow> bool" where
  "is_digit R c = (case digit_value c of None \<Rightarrow> False | Some d \<Rightarrow> d < R)"

definition mathInt :: "nat \<Rightarrow> string \<Rightarrow> int" where
  "mathInt R Z =
     foldl (\<lambda>acc c. case digit_value c of None \<Rightarrow> acc | Some d \<Rightarrow> acc * int R + int d) 0 Z"

definition parseInt :: "string \<Rightarrow> nat option \<Rightarrow> double" where
  "parseInt string radix =
     (let S0 = dropWhile StrWhiteSpaceChar string;
          sign = (if take 1 S0 = ''-'' then - 1 else (1::int));
          S1 = (if take 1 S0 = ''+'' \<or> take 1 S0 = ''-'' then drop 1 S0 else S0);
          R0 = (case radix of None \<Rightarrow> 0 | Some r \<Rightarrow> r);
          stripPrefix = (R0 = 0 \<or> R0 = 16);
          hex = (stripPrefix \<and> (take 2 S1 = ''0x'' \<or> take 2 S1 = ''0X''));
          S2 = (if hex then drop 2 S1 else S1);
          R = (if hex then 16 else if R0 = 0 then 10 else R0);
          Z = takeWhile (is_digit R) S2
      in if R < 2 \<or> 36 < R then NaN
         else if Z = [] then NaN
         else fl (sign * mathInt R Z))"

section \<open>Parsing the Cache-Control header\<close>

text \<open>
  \<^verbatim>\<open>CacheControlValue\<close> is the object the parser fills: a directive name maps to
  \<^verbatim>\<open>true\<close> or to a number.
\<close>

datatype ccval = CCTrue | CCNum double

type_synonym CacheControlValue = "string \<rightharpoonup> ccval"

definition NUMERIC_KEYS :: "string set" where
  "NUMERIC_KEYS = set [''max-age'', ''s-maxage'', ''stale-if-error'', ''stale-while-revalidate'']"

text \<open>
  \<^verbatim>\<open>parsedValue < 0\<close> and \<^verbatim>\<open>parsedValue >= 0\<close>; both are false of \<^verbatim>\<open>NaN\<close>.
\<close>

definition d_negative :: "double \<Rightarrow> bool" where
  "d_negative x = (case x of Fin a \<Rightarrow> a < 0 | NegInfinity \<Rightarrow> True | _ \<Rightarrow> False)"

definition d_nonnegative :: "double \<Rightarrow> bool" where
  "d_nonnegative x = (case x of Fin a \<Rightarrow> 0 \<le> a | PosInfinity \<Rightarrow> True | _ \<Rightarrow> False)"

text \<open>The double quote, for the messages of the assertions.\<close>

definition dq :: string where
  "dq = [CHR 0x22]"

definition parseCacheControlValue :: "bool \<Rightarrow> string \<Rightarrow> error + double" where
  "parseCacheControlValue dbg stringToParse =
     (if dbg \<and> parseInt stringToParse None = NaN then
        Inl (AssertionFailed
          (''Invalid Cache-Control value, expected a number but got - '' @ stringToParse))
      else if dbg \<and> \<not> d_nonnegative (parseInt stringToParse None) then
        Inl (AssertionFailed
          (''Invalid Cache-Control value, expected a number greater than 0 but got - '' @
           stringToParse))
      else if parseInt stringToParse None = NaN \<or> d_negative (parseInt stringToParse None) then
        Inr (Fin 0)
      else Inr (parseInt stringToParse None))"

text \<open>
  The statement \<^verbatim>\<open>cacheControlValue[key] = NUMERIC_KEYS.has(key) ? parseCacheControlValue(value) : true\<close>,
  which the loop runs at a comma and at the last character. The object is a plain
  object: assigning \<^verbatim>\<open>true\<close> to its property \<^verbatim>\<open>__proto__\<close> is the inherited setter,
  which ignores a value that is not an object, so nothing is stored.
\<close>

definition set_directive ::
  "bool \<Rightarrow> string \<Rightarrow> string \<Rightarrow> CacheControlValue \<Rightarrow> error + CacheControlValue" where
  "set_directive dbg key val obj =
     (if key \<in> NUMERIC_KEYS then
        (case parseCacheControlValue dbg val of
           Inl e \<Rightarrow> Inl e
         | Inr n \<Rightarrow> Inr (obj(key \<mapsto> CCNum n)))
      else if key = ''__proto__'' then Inr obj
      else Inr (obj(key \<mapsto> CCTrue)))"

text \<open>
  The loop variables of the parser: \<^verbatim>\<open>key\<close>, \<^verbatim>\<open>value\<close>, \<^verbatim>\<open>isParsingKey\<close> and
  the object \<^verbatim>\<open>cacheControlValue\<close> being filled.
\<close>

record scan =
  key :: string
  val :: string
  isParsingKey :: bool
  cacheControlValue :: CacheControlValue

text \<open>
  The tail of the loop body, \<^verbatim>\<open>if (i === header.length - 1) { cacheControlValue[key] = ... }\<close>;
  \<open>atEnd\<close> is \<^verbatim>\<open>i === header.length - 1\<close>.
\<close>

definition at_last_index :: "bool \<Rightarrow> bool \<Rightarrow> scan \<Rightarrow> error + scan" where
  "at_last_index dbg atEnd st =
     (if atEnd then
        (case set_directive dbg (key st) (val st) (cacheControlValue st) of
           Inl e \<Rightarrow> Inl e
         | Inr obj \<Rightarrow> Inr (st\<lparr>cacheControlValue := obj\<rparr>))
      else Inr st)"

text \<open>
  One iteration of the \<^verbatim>\<open>for\<close> loop on the character \<open>c\<close> at index \<^verbatim>\<open>i\<close>.
  \<open>prev\<close> is \<^verbatim>\<open>header.charAt(i - 1)\<close>, \<open>None\<close> when \<^verbatim>\<open>i === 0\<close>. A comma and the
  three white-space characters \<^verbatim>\<open>continue\<close>, so they skip the tail of the body.
\<close>

definition cc_step :: "bool \<Rightarrow> char option \<Rightarrow> char \<Rightarrow> bool \<Rightarrow> scan \<Rightarrow> error + scan" where
  "cc_step dbg prev c atEnd st =
     (if c = CHR '','' then
        (if dbg \<and> isParsingKey st \<and> key st \<in> NUMERIC_KEYS then
           Inl (AssertionFailed ''Invalid Cache-Control value, expected a value'')
         else if dbg \<and> prev = Some (CHR ''='') then
           Inl (AssertionFailed
             (''Invalid Cache-Control value, expected a value after '' @ dq @ ''='' @ dq @
              '' but got '' @ dq @ '','' @ dq))
         else
           (case set_directive dbg (key st) (val st) (cacheControlValue st) of
              Inl e \<Rightarrow> Inl e
            | Inr obj \<Rightarrow>
                Inr \<lparr>key = [], val = [], isParsingKey = True, cacheControlValue = obj\<rparr>))
      else if c = CHR ''='' then
        (if dbg \<and> atEnd then
           Inl (AssertionFailed
             (''Invalid Cache-Control value, expected a value after '' @ dq @ ''='' @ dq))
         else at_last_index dbg atEnd (st\<lparr>isParsingKey := False\<rparr>))
      else if c = CHR '' '' \<or> c = CHR 0x09 \<or> c = CHR 0x0A then Inr st
      else if isParsingKey st then at_last_index dbg atEnd (st\<lparr>key := key st @ [c]\<rparr>)
      else at_last_index dbg atEnd (st\<lparr>val := val st @ [c]\<rparr>))"

text \<open>The loop itself, as a recursion on the characters still to read.\<close>

fun cc_loop :: "bool \<Rightarrow> char option \<Rightarrow> scan \<Rightarrow> string \<Rightarrow> error + CacheControlValue" where
  "cc_loop dbg prev st [] = Inr (cacheControlValue st)"
| "cc_loop dbg prev st (c # rest) =
     (case cc_step dbg prev c (rest = []) st of
        Inl e \<Rightarrow> Inl e
      | Inr st' \<Rightarrow> cc_loop dbg (Some c) st' rest)"

text \<open>The function handed to the \<^verbatim>\<open>LRUCache\<close> constructor.\<close>

definition parse_header :: "bool \<Rightarrow> string \<Rightarrow> error + CacheControlValue" where
  "parse_header dbg header =
     cc_loop dbg None \<lparr>key = [], val = [], isParsingKey = True, cacheControlValue = Map.empty\<rparr> header"

text \<open>The state of an \<^verbatim>\<open>LRUCache\<close>: its entries, least recently used first.\<close>

type_synonym 'v LRUCache = "(string \<times> 'v) list"

text \<open>
  Modelled from the spec: the class \<^verbatim>\<open>LRUCache\<close> is imported from
  \<^verbatim>\<open>./-private/string/transform.ts\<close>, which is not among the sources. The spec says
  that parses are memoized per distinct raw header string in a bounded, recency-ordered
  cache. The state is the list of entries, least recently used first. A hit moves the
  entry to the end; a miss runs the worker, drops the oldest entry when the cache is
  full, and appends the new one. A worker that throws leaves the cache as it was.
\<close>

definition LRUCache_get ::
  "(string \<Rightarrow> error + 'v) \<Rightarrow> nat \<Rightarrow> 'v LRUCache \<Rightarrow> string \<Rightarrow> (error + 'v) \<times> 'v LRUCache" where
  "LRUCache_get doWork cap state k =
     (case map_of state k of
        Some v \<Rightarrow> (Inr v, filter (\<lambda>p. fst p \<noteq> k) state @ [(k, v)])
      | None \<Rightarrow>
          (case doWork k of
             Inl e \<Rightarrow> (Inl e, state)
           | Inr v \<Rightarrow> (Inr v, (if length state = cap then drop 1 state else state) @ [(k, v)])))"

definition parseCacheControl ::
  "bool \<Rightarrow> CacheControlValue LRUCache \<Rightarrow> string
     \<Rightarrow> (error + CacheControlValue) \<times> CacheControlValue LRUCache" where
  "parseCacheControl dbg CACHE_CONTROL_CACHE header =
     LRUCache_get (parse_header dbg) 200 CACHE_CONTROL_CACHE header"

text \<open>Every entry of a memo that only \<^verbatim>\<open>parseCacheControl\<close> has filled is a parse result.\<close>

definition memo_ok :: "bool \<Rightarrow> CacheControlValue LRUCache \<Rightarrow> bool" where
  "memo_ok dbg state = list_all (\<lambda>p. parse_header dbg (fst p) = Inr (snd p)) state"

section \<open>Responses, cached documents and the policy configuration\<close>

text \<open>
  \<^verbatim>\<open>Headers\<close> is the Fetch interface; \<^verbatim>\<open>get(name)\<close> ignores the case of the name
  and returns \<^verbatim>\<open>null\<close> for an absent header. The record holds the five headers the
  module reads; \<^verbatim>\<open>get('Date')\<close> and \<^verbatim>\<open>get('date')\<close> both read the field \<open>Date\<close>.
\<close>

record Headers =
  Date :: "string option"
  Age :: "string option"
  Cache_Control :: "string option"
  Expires :: "string option"
  X_WarpDrive_Expires :: "string option"

record ResponseInfo =
  status :: int
  headers :: "Headers option"

record StructuredDocument =
  response :: "ResponseInfo option"
  content :: "string option"

text \<open>
  A header value in a condition, as in \<^verbatim>\<open>if (expires)\<close>: \<^verbatim>\<open>null\<close> and the empty
  string are falsy.
\<close>

definition present :: "string option \<Rightarrow> string option" where
  "present h = (case h of None \<Rightarrow> None | Some s \<Rightarrow> if s = [] then None else Some s)"

text \<open>\<^verbatim>\<open>constraints.headers\<close>; an absent flag is \<^verbatim>\<open>undefined\<close>, so \<open>False\<close>.\<close>

record HeaderFlags =
  use_Cache_Control :: bool
  use_Expires :: bool
  use_X_WarpDrive_Expires :: bool

record Constraints =
  constraint_headers :: "HeaderFlags option"
  constraint_isExpired :: "(StructuredDocument \<Rightarrow> bool option) option"

text \<open>
  The configuration object. The TypeScript type \<^verbatim>\<open>PolicyConfig\<close> has numbers for the
  two durations: \<open>int Config\<close>. A JavaScript caller can pass anything to the
  constructor, which inspects the durations with \<^verbatim>\<open>typeof\<close>: \<open>jsval Config\<close>.
\<close>

record 'n Config =
  apiCacheSoftExpires :: 'n
  apiCacheHardExpires :: 'n
  disableTestOptimization :: bool
  constraints :: "Constraints option"

type_synonym PolicyConfig = "int Config"

datatype jsval = JUndefined | JNull | JBoolean bool | JNumber int | JNaN | JString string

datatype config_arg = Primitive jsval | Object "jsval Config"

text \<open>
  What the module takes from its environment: the build constants \<^verbatim>\<open>TESTING\<close> and
  the assertion flag, the clock \<^verbatim>\<open>Date.now()\<close>, and \<^verbatim>\<open>new Date(s).getTime()\<close>,
  which is \<^verbatim>\<open>NaN\<close> for a string that is not a date.
\<close>

record Runtime =
  TESTING :: bool
  DEBUG :: bool
  now :: int
  getTime :: "string \<Rightarrow> number"

section \<open>isExpired\<close>

text \<open>
  Truthiness of a directive value, \<^verbatim>\<open>a || b\<close>, and the number a value stands for in
  arithmetic (\<^verbatim>\<open>true\<close> counts as 1, \<^verbatim>\<open>undefined\<close> as \<^verbatim>\<open>NaN\<close>).
\<close>

definition d_truthy :: "double \<Rightarrow> bool" where
  "d_truthy x = (case x of NaN \<Rightarrow> False | Fin a \<Rightarrow> a \<noteq> 0 | _ \<Rightarrow> True)"

definition ccval_truthy :: "ccval option \<Rightarrow> bool" where
  "ccval_truthy v = (case v of None \<Rightarrow> False | Some CCTrue \<Rightarrow> True | Some (CCNum n) \<Rightarrow> d_truthy n)"

definition js_or :: "ccval option \<Rightarrow> ccval option \<Rightarrow> ccval option" where
  "js_or a b = (if ccval_truthy a then a else b)"

definition ccval_number :: "ccval option \<Rightarrow> double" where
  "ccval_number v = (case v of Some (CCNum n) \<Rightarrow> n | Some CCTrue \<Rightarrow> Fin 1 | None \<Rightarrow> NaN)"

text \<open>
  The blocks of \<^verbatim>\<open>isExpired\<close> under its comments ``check for X-WarpDrive-Expires'',
  ``check for Cache-Control'', ``check for Expires'' and ``check for Date''. A constraint
  block yields \<open>Some result\<close> when it returns and \<open>None\<close> when control falls through.
\<close>

definition check_X_WarpDrive_Expires :: "Runtime \<Rightarrow> HeaderFlags \<Rightarrow> Headers \<Rightarrow> bool option" where
  "check_X_WarpDrive_Expires env flags hs =
     (if use_X_WarpDrive_Expires flags then
        (case present (X_WarpDrive_Expires hs) of
           Some xWarpDriveExpires \<Rightarrow> Some (num_ge (now env) (getTime env xWarpDriveExpires))
         | None \<Rightarrow> None)
      else None)"

definition cache_control_result ::
  "Runtime \<Rightarrow> CacheControlValue \<Rightarrow> string \<Rightarrow> string \<Rightarrow> error + bool option" where
  "cache_control_result env ccv age date =
     (if ccval_truthy (js_or (ccv ''max-age'') (ccv ''s-maxage'')) then
        (if DEBUG env \<and> parseInt age (Some 10) = NaN then
           Inl (AssertionFailed
             (''Invalid Cache-Control value, expected a number but got - '' @ age))
         else if DEBUG env \<and> \<not> d_nonnegative (parseInt age (Some 10)) then
           Inl (AssertionFailed
             (''Invalid Cache-Control value, expected a number greater than 0 but got - '' @ age))
         else if parseInt age (Some 10) \<noteq> NaN \<and> d_nonnegative (parseInt age (Some 10)) then
           Inr (Some (d_ge (now env)
             (d_add (getTime env date)
                (times_1000
                   (d_sub (ccval_number (js_or (ccv ''max-age'') (ccv ''s-maxage'')))
                      (parseInt age (Some 10)))))))
         else Inr None)
      else Inr None)"

definition check_Cache_Control ::
  "Runtime \<Rightarrow> CacheControlValue LRUCache \<Rightarrow> HeaderFlags \<Rightarrow> Headers
     \<Rightarrow> (error + bool option) \<times> CacheControlValue LRUCache" where
  "check_Cache_Control env memo flags hs =
     (if use_Cache_Control flags then
        (case present (Cache_Control hs) of
           None \<Rightarrow> (Inr None, memo)
         | Some cacheControl \<Rightarrow>
             (case present (Age hs) of
                None \<Rightarrow> (Inr None, memo)
              | Some age \<Rightarrow>
                  (case present (Date hs) of
                     None \<Rightarrow> (Inr None, memo)
                   | Some date \<Rightarrow>
                       (case parseCacheControl (DEBUG env) memo cacheControl of
                          (Inl e, memo') \<Rightarrow> (Inl e, memo')
                        | (Inr ccv, memo') \<Rightarrow>
                            (cache_control_result env ccv age date, memo')))))
      else (Inr None, memo))"

definition check_Expires :: "Runtime \<Rightarrow> HeaderFlags \<Rightarrow> Headers \<Rightarrow> bool option" where
  "check_Expires env flags hs =
     (if use_Expires flags then
        (case present (Expires hs) of
           Some expires \<Rightarrow> Some (num_ge (now env) (getTime env expires))
         | None \<Rightarrow> None)
      else None)"

definition check_Date :: "Runtime \<Rightarrow> PolicyConfig \<Rightarrow> Headers \<Rightarrow> bool" where
  "check_Date env config hs =
     (case present (Date hs) of
        None \<Rightarrow> True
      | Some date \<Rightarrow>
          (let expirationTime =
                 (if TESTING env \<and> \<not> disableTestOptimization config
                  then apiCacheSoftExpires config else apiCacheHardExpires config)
           in num_ge (now env) (num_add (getTime env date) expirationTime)))"

text \<open>The header checks in the order of the source, from the constraints on.\<close>

definition header_checks ::
  "Runtime \<Rightarrow> CacheControlValue LRUCache \<Rightarrow> PolicyConfig \<Rightarrow> Headers
     \<Rightarrow> (error + bool) \<times> CacheControlValue LRUCache" where
  "header_checks env memo config hs =
     (case (case constraints config of None \<Rightarrow> None | Some c \<Rightarrow> constraint_headers c) of
        None \<Rightarrow> (Inr (check_Date env config hs), memo)
      | Some flags \<Rightarrow>
          (case check_X_WarpDrive_Expires env flags hs of
             Some result \<Rightarrow> (Inr result, memo)
           | None \<Rightarrow>
               (case check_Cache_Control env memo flags hs of
                  (Inl e, memo') \<Rightarrow> (Inl e, memo')
                | (Inr (Some result), memo') \<Rightarrow> (Inr result, memo')
                | (Inr None, memo') \<Rightarrow>
                    (case check_Expires env flags hs of
                       Some result \<Rightarrow> (Inr result, memo')
                     | None \<Rightarrow> (Inr (check_Date env config hs), memo')))))"

text \<open>\<^verbatim>\<open>constraints?.isExpired\<close> applied to the document; \<open>None\<close> is \<^verbatim>\<open>null\<close> or no predicate.\<close>

definition custom_isExpired :: "PolicyConfig \<Rightarrow> StructuredDocument \<Rightarrow> bool option" where
  "custom_isExpired config request =
     (case constraints config of
        None \<Rightarrow> None
      | Some c \<Rightarrow> (case constraint_isExpired c of None \<Rightarrow> None | Some f \<Rightarrow> f request))"

text \<open>
  \<^verbatim>\<open>isExpired(identifier, request, config)\<close>. The identifier is only logged. Reading
  \<^verbatim>\<open>headers\<close> of a \<^verbatim>\<open>null\<close> response throws; \<^verbatim>\<open>isHardExpired\<close> never passes one.
\<close>

definition isExpired ::
  "Runtime \<Rightarrow> CacheControlValue LRUCache \<Rightarrow> StructuredDocument \<Rightarrow> PolicyConfig
     \<Rightarrow> (error + bool) \<times> CacheControlValue LRUCache" where
  "isExpired env memo request config =
     (case custom_isExpired config request of
        Some result \<Rightarrow> (Inr result, memo)
      | None \<Rightarrow>
          (case response request of
             None \<Rightarrow> (Inl (TypeError ''Cannot destructure property headers of null''), memo)
           | Some r \<Rightarrow>
               (case headers r of
                  None \<Rightarrow> (Inr True, memo)
                | Some hs \<Rightarrow> header_checks env memo config hs)))"

section \<open>The class CachePolicy\<close>

text \<open>
  A document identifier is an object compared by identity, one per cache key; its
  \<^verbatim>\<open>lid\<close> stands for it. A JavaScript \<^verbatim>\<open>Set\<close> is the list of its members in
  insertion order, a \<^verbatim>\<open>Map\<close> the list of its entries in insertion order.
\<close>

type_synonym StableDocumentIdentifier = string

definition Set_add :: "'a \<Rightarrow> 'a list \<Rightarrow> 'a list" where
  "Set_add x xs = (if x \<in> set xs then xs else xs @ [x])"

definition Set_delete :: "'a \<Rightarrow> 'a list \<Rightarrow> 'a list" where
  "Set_delete x xs = filter (\<lambda>y. y \<noteq> x) xs"

fun Map_set :: "'k \<Rightarrow> 'v \<Rightarrow> ('k \<times> 'v) list \<Rightarrow> ('k \<times> 'v) list" where
  "Map_set k v [] = [(k, v)]"
| "Map_set k v (p # ps) = (if fst p = k then (k, v) # ps else p # Map_set k v ps)"

text \<open>The value of \<^verbatim>\<open>_stores\<close> for one store, and the policy object.\<close>

record StoreCache =
  invalidated :: "StableDocumentIdentifier list"
  types :: "(string \<times> StableDocumentIdentifier list) list"

record 'c CachePolicy =
  config :: 'c
  stores :: "nat \<rightharpoonup> StoreCache"

text \<open>
  A store: its identity (the key of the \<^verbatim>\<open>WeakMap\<close>) and \<^verbatim>\<open>store.cache.peekRequest\<close>.
  \<^verbatim>\<open>store.notifications.notify(id, 'invalidated')\<close> is an output: the functions that
  notify return the list of the notifications they sent, in order.
\<close>

record Store =
  store_ref :: nat
  peekRequest :: "StableDocumentIdentifier \<Rightarrow> StructuredDocument option"

type_synonym notification = "StableDocumentIdentifier \<times> string"

record StableRecordIdentifier =
  record_lid :: string
  record_type :: string
  record_id :: "string option"

record CacheOptions =
  cacheOptions_types :: "string list option"

record ImmutableRequestInfo =
  op :: "string option"
  records :: "StableRecordIdentifier list option"
  cacheOptions :: "CacheOptions option"

text \<open>
  \<^verbatim>\<open>_getStore\<close> returns the record of the store and creates an empty one first when
  the store has none. The source mutates the record it got; the model writes it back
  with \<open>put_store\<close>.
\<close>

definition getStore :: "'c CachePolicy \<Rightarrow> Store \<Rightarrow> StoreCache \<times> 'c CachePolicy" where
  "getStore this store =
     (case stores this (store_ref store) of
        Some s \<Rightarrow> (s, this)
      | None \<Rightarrow>
          (\<lparr>invalidated = [], types = []\<rparr>,
           this\<lparr>stores := (stores this)(store_ref store \<mapsto> \<lparr>invalidated = [], types = []\<rparr>)\<rparr>))"

definition put_store :: "'c CachePolicy \<Rightarrow> Store \<Rightarrow> StoreCache \<Rightarrow> 'c CachePolicy" where
  "put_store this store s = this\<lparr>stores := (stores this)(store_ref store \<mapsto> s)\<rparr>"

text \<open>
  The constructor. \<^verbatim>\<open>deprecate\<close> only reports; the three assertions throw in a build
  that keeps them. A primitive that passes the first assertion has no property
  \<^verbatim>\<open>apiCacheSoftExpires\<close>, so \<^verbatim>\<open>typeof\<close> gives \<^verbatim>\<open>'undefined'\<close>.
\<close>

definition js_truthy :: "jsval \<Rightarrow> bool" where
  "js_truthy v =
     (case v of
        JUndefined \<Rightarrow> False | JNull \<Rightarrow> False | JNaN \<Rightarrow> False
      | JBoolean b \<Rightarrow> b | JNumber n \<Rightarrow> n \<noteq> 0 | JString s \<Rightarrow> s \<noteq> [])"

definition typeof_number :: "jsval \<Rightarrow> bool" where
  "typeof_number v = (case v of JNumber n \<Rightarrow> True | JNaN \<Rightarrow> True | _ \<Rightarrow> False)"

text \<open>\<^verbatim>\<open>arguments.length === 1 ? config : arguments[1]\<close>\<close>

definition selected_config :: "config_arg list \<Rightarrow> config_arg" where
  "selected_config arguments =
     (if length arguments = 1 then arguments ! 0
      else if 1 < length arguments then arguments ! 1
      else Primitive JUndefined)"

definition config_truthy :: "config_arg \<Rightarrow> bool" where
  "config_truthy cfg = (case cfg of Primitive v \<Rightarrow> js_truthy v | Object c \<Rightarrow> True)"

definition soft_is_number :: "config_arg \<Rightarrow> bool" where
  "soft_is_number cfg =
     (case cfg of Primitive v \<Rightarrow> False | Object c \<Rightarrow> typeof_number (apiCacheSoftExpires c))"

definition hard_is_number :: "config_arg \<Rightarrow> bool" where
  "hard_is_number cfg =
     (case cfg of Primitive v \<Rightarrow> False | Object c \<Rightarrow> typeof_number (apiCacheHardExpires c))"

definition CachePolicy_constructor :: "bool \<Rightarrow> config_arg list \<Rightarrow> error + config_arg CachePolicy" where
  "CachePolicy_constructor dbg arguments =
     (if dbg \<and> \<not> config_truthy (selected_config arguments) then
        Inl (AssertionFailed ''You must pass a config to the CachePolicy'')
      else if dbg \<and> \<not> soft_is_number (selected_config arguments) then
        Inl (AssertionFailed ''You must pass a apiCacheSoftExpires to the CachePolicy'')
      else if dbg \<and> \<not> hard_is_number (selected_config arguments) then
        Inl (AssertionFailed ''You must pass a apiCacheHardExpires to the CachePolicy'')
      else Inr \<lparr>config = selected_config arguments, stores = Map.empty\<rparr>)"

definition invalidateRequest ::
  "StableDocumentIdentifier \<Rightarrow> Store \<Rightarrow> 'c CachePolicy \<Rightarrow> 'c CachePolicy" where
  "invalidateRequest identifier store this =
     (case getStore this store of
        (storeCache, this') \<Rightarrow>
          put_store this' store
            (storeCache\<lparr>invalidated := Set_add identifier (invalidated storeCache)\<rparr>))"

text \<open>The body of \<^verbatim>\<open>set.forEach\<close> in \<^verbatim>\<open>invalidateRequestsForType\<close>, on one member.\<close>

definition invalidate_one ::
  "StableDocumentIdentifier list \<times> notification list \<Rightarrow> StableDocumentIdentifier
     \<Rightarrow> StableDocumentIdentifier list \<times> notification list" where
  "invalidate_one acc ident = (Set_add ident (fst acc), snd acc @ [(ident, ''invalidated'')])"

definition invalidateRequestsForType ::
  "string \<Rightarrow> Store \<Rightarrow> 'c CachePolicy \<Rightarrow> 'c CachePolicy \<times> notification list" where
  "invalidateRequestsForType type store this =
     (case getStore this store of
        (storeCache, this') \<Rightarrow>
          (case map_of (types storeCache) type of
             None \<Rightarrow> (this', [])
           | Some members \<Rightarrow>
               (case foldl invalidate_one (invalidated storeCache, []) members of
                  (ids, sent) \<Rightarrow> (put_store this' store (storeCache\<lparr>invalidated := ids\<rparr>), sent))))"

text \<open>
  The types a successful \<^verbatim>\<open>createRecord\<close> invalidates: the \<^verbatim>\<open>Set\<close> of the types of
  \<^verbatim>\<open>request.records\<close>, to which \<^verbatim>\<open>request.cacheOptions.types\<close> are added.
\<close>

definition cacheOptions_types_of :: "ImmutableRequestInfo \<Rightarrow> string list option" where
  "cacheOptions_types_of request =
     (case cacheOptions request of None \<Rightarrow> None | Some opts \<Rightarrow> cacheOptions_types opts)"

definition created_types :: "ImmutableRequestInfo \<Rightarrow> string list" where
  "created_types request =
     foldl (\<lambda>s t. Set_add t s) []
       ((case records request of None \<Rightarrow> [] | Some rs \<Rightarrow> map record_type rs) @
        (case cacheOptions_types_of request of None \<Rightarrow> [] | Some ts \<Rightarrow> ts))"

definition invalidate_type ::
  "Store \<Rightarrow> 'c CachePolicy \<times> notification list \<Rightarrow> string \<Rightarrow> 'c CachePolicy \<times> notification list" where
  "invalidate_type store acc type =
     (case invalidateRequestsForType type store (fst acc) of
        (this', sent) \<Rightarrow> (this', snd acc @ sent))"

text \<open>The body of \<^verbatim>\<open>types.forEach\<close> in the second branch of \<^verbatim>\<open>didRequest\<close>.\<close>

definition register_type :: "StableDocumentIdentifier \<Rightarrow> StoreCache \<Rightarrow> string \<Rightarrow> StoreCache" where
  "register_type identifier storeCache type =
     (case map_of (types storeCache) type of
        Some members \<Rightarrow>
          storeCache\<lparr>types := Map_set type (Set_add identifier members) (types storeCache),
                      invalidated := Set_delete identifier (invalidated storeCache)\<rparr>
      | None \<Rightarrow> storeCache\<lparr>types := Map_set type [identifier] (types storeCache)\<rparr>)"

text \<open>\<^verbatim>\<open>response?.status ?? 0\<close>\<close>

definition statusNumber :: "ResponseInfo option \<Rightarrow> int" where
  "statusNumber resp = (case resp of None \<Rightarrow> 0 | Some r \<Rightarrow> status r)"

definition didRequest ::
  "ImmutableRequestInfo \<Rightarrow> ResponseInfo option \<Rightarrow> StableDocumentIdentifier option \<Rightarrow> Store
     \<Rightarrow> 'c CachePolicy \<Rightarrow> 'c CachePolicy \<times> notification list" where
  "didRequest request resp identifier store this =
     (if op request = Some ''createRecord'' then
        (if 200 \<le> statusNumber resp \<and> statusNumber resp < 400 then
           foldl (invalidate_type store) (this, []) (created_types request)
         else (this, []))
      else
        (case identifier of
           None \<Rightarrow> (this, [])
         | Some ident \<Rightarrow>
             (case cacheOptions_types_of request of
                None \<Rightarrow> (this, [])
              | Some ts \<Rightarrow>
                  if ts = [] then (this, [])
                  else
                    (case getStore this store of
                       (storeCache, this') \<Rightarrow>
                         (put_store this' store (foldl (register_type ident) storeCache ts), [])))))"

text \<open>
  The two queries. They return the policy as they leave it, and \<^verbatim>\<open>isHardExpired\<close>
  the parse memo as well.
\<close>

definition isHardExpired ::
  "Runtime \<Rightarrow> CacheControlValue LRUCache \<Rightarrow> StableDocumentIdentifier \<Rightarrow> Store
     \<Rightarrow> PolicyConfig CachePolicy
     \<Rightarrow> (error + bool) \<times> PolicyConfig CachePolicy \<times> CacheControlValue LRUCache" where
  "isHardExpired env memo identifier store this =
     (case getStore this store of
        (storeCache, this') \<Rightarrow>
          if identifier \<in> set (invalidated storeCache) then (Inr True, this', memo)
          else
            (case peekRequest store identifier of
               None \<Rightarrow> (Inr True, this', memo)
             | Some cached \<Rightarrow>
                 (case response cached of
                    None \<Rightarrow> (Inr True, this', memo)
                  | Some r \<Rightarrow>
                      (case isExpired env memo cached (config this') of
                         (result, memo') \<Rightarrow> (result, this', memo')))))"

definition isSoftExpired ::
  "Runtime \<Rightarrow> StableDocumentIdentifier \<Rightarrow> Store \<Rightarrow> PolicyConfig CachePolicy
     \<Rightarrow> (error + bool) \<times> PolicyConfig CachePolicy" where
  "isSoftExpired env identifier store this =
     (if TESTING env \<and> \<not> disableTestOptimization (config this) then (Inr False, this)
      else
        (case peekRequest store identifier of
           None \<Rightarrow> (Inr True, this)
         | Some cached \<Rightarrow>
             (case response cached of
                None \<Rightarrow> (Inr True, this)
              | Some r \<Rightarrow>
                  (case headers r of
                     None \<Rightarrow>
                       (Inl (TypeError ''Cannot read properties of undefined (reading get)''), this)
                   | Some hs \<Rightarrow>
                       (case present (Date hs) of
                          None \<Rightarrow> (Inr True, this)
                        | Some date \<Rightarrow>
                            (Inr (num_ge (now env)
                               (num_add (getTime env date) (apiCacheSoftExpires (config this)))),
                             this))))))"

section \<open>Notions used in the statements\<close>

text \<open>
  A character that the parser adds to the key or to the value: no comma, no equals sign
  and none of the three characters it skips.
\<close>

definition plain :: "char \<Rightarrow> bool" where
  "plain c = (c \<notin> set [CHR '','', CHR ''='', CHR '' '', CHR 0x09, CHR 0x0A])"



text \<open>
  The decimal digits of a non-negative integer, most significant first and without
  leading zeros: the text \<^verbatim>\<open>N\<close> of a generated header \<^verbatim>\<open>max-age=N\<close>.
\<close>

definition digit_char :: "nat \<Rightarrow> char" where
  "digit_char d = char_of (48 + d)"

function show_nat :: "nat \<Rightarrow> string" where
  "show_nat n = (if n < 10 then [digit_char n] else show_nat (n div 10) @ [digit_char (n mod 10)])"
  by pat_completeness auto
termination
  by (relation "measure id") auto

declare show_nat.simps [simp del]

definition dec_digit :: "char \<Rightarrow> bool" where
  "dec_digit c = (48 \<le> (of_char c :: nat) \<and> (of_char c :: nat) \<le> 57)"

text \<open>
  The record of a store as \<^verbatim>\<open>_getStore\<close> gives it, its invalidated set, and the
  identifiers registered as dependent on a type.
\<close>

definition store_view :: "'c CachePolicy \<Rightarrow> Store \<Rightarrow> StoreCache" where
  "store_view this store = fst (getStore this store)"

definition invalidated_of :: "'c CachePolicy \<Rightarrow> Store \<Rightarrow> StableDocumentIdentifier set" where
  "invalidated_of this store = set (invalidated (store_view this store))"

definition dependents :: "'c CachePolicy \<Rightarrow> Store \<Rightarrow> string \<Rightarrow> StableDocumentIdentifier set" where
  "dependents this store type =
     (case map_of (types (store_view this store)) type of None \<Rightarrow> {} | Some members \<Rightarrow> set members)"

text \<open>
  The types of the records in the payload of a request together with the types its cache
  options list.
\<close>

definition request_types :: "ImmutableRequestInfo \<Rightarrow> string set" where
  "request_types request =
     set (case records request of None \<Rightarrow> [] | Some rs \<Rightarrow> map record_type rs) \<union>
     set (case cacheOptions_types_of request of None \<Rightarrow> [] | Some ts \<Rightarrow> ts)"

subsection \<open>Data of the scenarios\<close>

text \<open>
  The configuration of the scenarios, a policy that has seen no store, a clock, and a
  store whose cache holds one document under the identifier \<^verbatim>\<open>d1\<close>. The clock reads
  1700000000000; \<open>scenario_env dbg t\<close> gives the \<^verbatim>\<open>Date\<close> header of the scenarios the
  time \<open>t\<close> and every other string no time.
\<close>

definition scenario_config :: PolicyConfig where
  "scenario_config =
     \<lparr>apiCacheSoftExpires = 30000, apiCacheHardExpires = 60000,
      disableTestOptimization = False, constraints = None\<rparr>"

definition new_policy :: "'c \<Rightarrow> 'c CachePolicy" where
  "new_policy c = \<lparr>config = c, stores = Map.empty\<rparr>"

definition scenario_date :: string where
  "scenario_date = ''Tue, 14 Nov 2023 22:12:35 GMT''"

definition scenario_env :: "bool \<Rightarrow> int \<Rightarrow> Runtime" where
  "scenario_env dbg t =
     \<lparr>TESTING = False, DEBUG = dbg, now = 1700000000000,
      getTime = (\<lambda>s. if s = scenario_date then Some t else None)\<rparr>"

definition date_only :: Headers where
  "date_only =
     \<lparr>Date = Some scenario_date, Age = None, Cache_Control = None, Expires = None,
      X_WarpDrive_Expires = None\<rparr>"

definition document :: "Headers option \<Rightarrow> StructuredDocument" where
  "document hs = \<lparr>response = Some \<lparr>status = 200, headers = hs\<rparr>, content = None\<rparr>"

definition store_holding :: "StructuredDocument option \<Rightarrow> Store" where
  "store_holding doc = \<lparr>store_ref = 0, peekRequest = (\<lambda>d. if d = ''d1'' then doc else None)\<rparr>"

definition query_person :: ImmutableRequestInfo where
  "query_person =
     \<lparr>op = Some ''query'', records = None,
      cacheOptions = Some \<lparr>cacheOptions_types = Some [''person'']\<rparr>\<rparr>"

definition create_person :: ImmutableRequestInfo where
  "create_person =
     \<lparr>op = Some ''createRecord'',
      records = Some [\<lparr>record_lid = ''@lid:person-1'', record_type = ''person'',
                       record_id = Some ''1''\<rparr>],
      cacheOptions = None\<rparr>"

text \<open>
  The policy after a query for \<^verbatim>\<open>d1\<close> that lists the type \<^verbatim>\<open>person\<close>, and the policy
  after \<^verbatim>\<open>invalidateRequest\<close> for \<^verbatim>\<open>d1\<close> followed by the same query.
\<close>

definition registered :: "PolicyConfig CachePolicy" where
  "registered =
     fst (didRequest query_person (Some \<lparr>status = 200, headers = None\<rparr>) (Some ''d1'')
            (store_holding (Some (document (Some date_only)))) (new_policy scenario_config))"

definition invalidated_then_fetched :: "PolicyConfig CachePolicy" where
  "invalidated_then_fetched =
     fst (didRequest query_person (Some \<lparr>status = 200, headers = None\<rparr>) (Some ''d1'')
            (store_holding (Some (document (Some date_only))))
            (invalidateRequest ''d1'' (store_holding (Some (document (Some date_only))))
               (new_policy scenario_config)))"

text \<open>
  The configuration of the scenarios with the Cache-Control constraint enabled, and
  headers with \<^verbatim>\<open>Cache-Control\<close>, \<^verbatim>\<open>Age\<close> and \<^verbatim>\<open>Date\<close>.
\<close>

definition cache_control_config :: PolicyConfig where
  "cache_control_config =
     \<lparr>apiCacheSoftExpires = 30000, apiCacheHardExpires = 60000,
      disableTestOptimization = False,
      constraints = Some
        \<lparr>constraint_headers = Some
           \<lparr>use_Cache_Control = True, use_Expires = False, use_X_WarpDrive_Expires = False\<rparr>,
         constraint_isExpired = None\<rparr>\<rparr>"

definition cache_control_headers :: "string \<Rightarrow> string \<Rightarrow> Headers" where
  "cache_control_headers cc age =
     \<lparr>Date = Some scenario_date, Age = Some age, Cache_Control = Some cc, Expires = None,
      X_WarpDrive_Expires = None\<rparr>"

text \<open>The configuration of the scenarios as a JavaScript caller passes it.\<close>

definition scenario_config_arg :: "jsval Config" where
  "scenario_config_arg =
     \<lparr>apiCacheSoftExpires = JNumber 30000, apiCacheHardExpires = JNumber 60000,
      disableTestOptimization = False, constraints = None\<rparr>"





section \<open>Doubles: where the rounding is exact\<close>

lemma shift53_small: "n < 9007199254740992 \<Longrightarrow> shift53 n = 0"
  by (simp add: shift53.simps)

lemma shift53_big: "\<not> n < 9007199254740992 \<Longrightarrow> shift53 n = Suc (shift53 (n div 2))"
  by (simp add: shift53.simps [of n])

lemma round53_small: "n \<le> 9007199254740992 \<Longrightarrow> round53 n = n"
proof (cases "n < 9007199254740992")
  case True
  then show ?thesis by (simp add: round53_def shift53_small)
next
  case False
  assume "n \<le> 9007199254740992"
  with False have n: "n = 9007199254740992" by simp
  have "shift53 9007199254740992 = Suc 0"
    by (simp add: shift53_big shift53_small)
  then show ?thesis by (simp add: round53_def n)
qed

lemma fl_exact: "\<bar>x\<bar> \<le> 9007199254740992 \<Longrightarrow> fl x = Fin x"
proof -
  assume a: "\<bar>x\<bar> \<le> 9007199254740992"
  then have "nat \<bar>x\<bar> \<le> 9007199254740992" by simp
  then have r: "round53 (nat \<bar>x\<bar>) = nat \<bar>x\<bar>" by (rule round53_small)
  have "(2::nat) ^ 1024 > 9007199254740992" by simp
  with a have "\<not> (2::nat) ^ 1024 \<le> nat \<bar>x\<bar>" by linarith
  then show ?thesis unfolding fl_def r using a by auto
qed

lemma fl_nonnegative: "0 \<le> x \<Longrightarrow> fl x \<noteq> NaN \<and> d_nonnegative (fl x) \<and> \<not> d_negative (fl x)"
  by (simp add: fl_def d_nonnegative_def d_negative_def)

lemma fl_above_2_53: "fl 9007199254740993 = Fin 9007199254740992"
proof -
  have s: "shift53 9007199254740993 = Suc 0"
    by (simp add: shift53_big shift53_small)
  have r: "round53 9007199254740993 = 9007199254740992"
    by (simp add: round53_def s)
  show ?thesis by (simp add: fl_def r)
qed

section \<open>The parser: decimal digits\<close>

lemma dec_digit_char: "d < 10 \<Longrightarrow> dec_digit (digit_char d)"
  by (simp add: dec_digit_def digit_char_def)

lemma digit_value_digit_char: "d < 10 \<Longrightarrow> digit_value (digit_char d) = Some d"
  by (simp add: digit_value_def digit_char_def)

lemma dec_digit_plain: "dec_digit c \<Longrightarrow> plain c"
  by (auto simp: dec_digit_def plain_def)

lemma dec_digit_not_space: "dec_digit c \<Longrightarrow> \<not> StrWhiteSpaceChar c"
  by (auto simp: dec_digit_def StrWhiteSpaceChar_def)

lemma dec_digit_is_digit: "dec_digit c \<Longrightarrow> is_digit 10 c"
  by (auto simp: dec_digit_def is_digit_def digit_value_def)

lemma dec_digit_not_sign:
  "dec_digit c \<Longrightarrow> c \<noteq> CHR ''-'' \<and> c \<noteq> CHR ''+'' \<and> c \<noteq> CHR ''x'' \<and> c \<noteq> CHR ''X''"
  by (auto simp: dec_digit_def)

lemma show_nat_digits: "list_all dec_digit (show_nat n)"
proof (induction n rule: show_nat.induct)
  case (1 n)
  show ?case
  proof (cases "n < 10")
    case True
    then show ?thesis by (simp add: show_nat.simps [of n] dec_digit_char)
  next
    case False
    with 1 show ?thesis by (simp add: show_nat.simps [of n] dec_digit_char)
  qed
qed

lemma show_nat_nonempty: "show_nat n \<noteq> []"
  by (simp add: show_nat.simps [of n])

lemma mathInt_snoc:
  "mathInt R (Z @ [c]) =
     (case digit_value c of None \<Rightarrow> mathInt R Z | Some d \<Rightarrow> mathInt R Z * int R + int d)"
  by (simp add: mathInt_def split: option.split)

lemma mathInt_show_nat: "mathInt 10 (show_nat n) = int n"
proof (induction n rule: show_nat.induct)
  case (1 n)
  show ?case
  proof (cases "n < 10")
    case True
    then show ?thesis by (simp add: show_nat.simps [of n] mathInt_def digit_value_digit_char)
  next
    case False
    then have "mathInt 10 (show_nat (n div 10)) = int (n div 10)" using 1 by simp
    moreover have "int (n div 10) * 10 + int (n mod 10) = int n"
      by presburger
    ultimately show ?thesis using False
      by (simp add: show_nat.simps [of n] mathInt_snoc digit_value_digit_char)
  qed
qed

lemma parseInt_digits:
  assumes "list_all dec_digit ds" and "ds \<noteq> []"
  shows "parseInt ds None = fl (mathInt 10 ds)"
proof -
  obtain x xs where ds: "ds = x # xs" using assms(2) by (cases ds) auto
  have x: "dec_digit x" and xs: "list_all dec_digit xs" using assms(1) ds by auto
  have tw: "takeWhile (is_digit 10) ds = ds"
    using assms(1) by (induction ds) (auto simp: dec_digit_is_digit)
  have nohex: "take 2 ds \<noteq> ''0x'' \<and> take 2 ds \<noteq> ''0X''"
    using xs ds dec_digit_not_sign by (cases xs) auto
  have S0: "dropWhile StrWhiteSpaceChar ds = ds"
    using dec_digit_not_space [OF x] by (simp add: ds)
  have sg: "take 1 ds \<noteq> ''-'' \<and> take 1 ds \<noteq> ''+''"
    using dec_digit_not_sign [OF x] by (simp add: ds)
  have Z: "ds \<noteq> []" by (simp add: ds)
  show ?thesis
    unfolding parseInt_def Let_def S0
    using sg nohex Z by (simp add: tw)
qed

lemma parseInt_show_nat: "parseInt (show_nat n) None = fl (int n)"
  by (simp add: parseInt_digits show_nat_digits show_nat_nonempty mathInt_show_nat)

section \<open>The parser: the loop on plain characters\<close>

lemma cc_step_plain_key:
  "plain c \<Longrightarrow> isParsingKey st \<Longrightarrow>
   cc_step dbg prev c False st = Inr (st\<lparr>key := key st @ [c]\<rparr>)"
  by (simp add: cc_step_def plain_def at_last_index_def)

lemma cc_step_plain_val:
  "plain c \<Longrightarrow> \<not> isParsingKey st \<Longrightarrow>
   cc_step dbg prev c False st = Inr (st\<lparr>val := val st @ [c]\<rparr>)"
  by (simp add: cc_step_def plain_def at_last_index_def)

lemma cc_loop_key:
  "list_all plain ks \<Longrightarrow> isParsingKey st \<Longrightarrow> rest \<noteq> [] \<Longrightarrow>
   cc_loop dbg prev st (ks @ rest) =
   cc_loop dbg (if ks = [] then prev else Some (last ks)) (st\<lparr>key := key st @ ks\<rparr>) rest"
proof (induction ks arbitrary: prev st)
  case Nil
  then show ?case by simp
next
  case (Cons c ks)
  then show ?case by (simp add: cc_step_plain_key)
qed


lemma cc_loop_val_end:
  "list_all plain vs \<Longrightarrow> vs \<noteq> [] \<Longrightarrow> \<not> isParsingKey st \<Longrightarrow>
   cc_loop dbg prev st vs =
   (case set_directive dbg (key st) (val st @ vs) (cacheControlValue st) of
      Inl e \<Rightarrow> Inl e | Inr obj \<Rightarrow> Inr obj)"
proof (induction vs arbitrary: prev st)
  case Nil
  then show ?case by simp
next
  case (Cons c vs)
  show ?case
  proof (cases "vs = []")
    case True
    with Cons.prems show ?thesis
      by (simp add: cc_step_def plain_def at_last_index_def split: sum.split)
  next
    case False
    with Cons show ?thesis by (simp add: cc_step_plain_val)
  qed
qed

lemma cc_step_equals:
  "rest \<noteq> [] \<Longrightarrow> cc_step dbg prev (CHR ''='') False st = Inr (st\<lparr>isParsingKey := False\<rparr>)"
  by (simp add: cc_step_def at_last_index_def)


text \<open>A directive \<open>k=v\<close> that ends the header.\<close>

lemma cc_loop_directive_end:
  assumes "list_all plain ks" and "list_all plain vs" and "dbg \<longrightarrow> vs \<noteq> []"
  shows "cc_loop dbg prev \<lparr>key = [], val = [], isParsingKey = True, cacheControlValue = obj\<rparr>
           (ks @ ''='' @ vs) =
         (case set_directive dbg ks vs obj of Inl e \<Rightarrow> Inl e | Inr obj' \<Rightarrow> Inr obj')"
proof -
  let ?st0 = "\<lparr>key = [], val = [], isParsingKey = True, cacheControlValue = obj\<rparr>"
  let ?st1 = "\<lparr>key = ks, val = [], isParsingKey = False, cacheControlValue = obj\<rparr>"
  have a: "cc_loop dbg prev ?st0 (ks @ (''='' @ vs)) =
        cc_loop dbg (if ks = [] then prev else Some (last ks)) (?st0\<lparr>key := key ?st0 @ ks\<rparr>)
          (''='' @ vs)"
    by (rule cc_loop_key) (use assms in simp_all)
  show ?thesis
  proof (cases "vs = []")
    case True
    with a assms(3) show ?thesis
      by (simp add: cc_step_def at_last_index_def split: sum.split)
  next
    case False
    have "cc_loop dbg prev ?st0 (ks @ (''='' @ vs)) = cc_loop dbg (Some (CHR ''='')) ?st1 vs"
      using a False by (simp add: cc_step_def at_last_index_def)
    also have "\<dots> = (case set_directive dbg (key ?st1) (val ?st1 @ vs) (cacheControlValue ?st1) of
        Inl e \<Rightarrow> Inl e | Inr obj' \<Rightarrow> Inr obj')"
      by (rule cc_loop_val_end) (use assms False in simp_all)
    finally show ?thesis by simp
  qed
qed






section \<open>The parse memo\<close>

lemma LRUCache_get_result:
  assumes "list_all (\<lambda>p. doWork (fst p) = Inr (snd p)) state"
  shows "fst (LRUCache_get doWork cap state k) = doWork k"
proof (cases "map_of state k")
  case None
  then show ?thesis by (simp add: LRUCache_get_def split: sum.split)
next
  case (Some v)
  then have "(k, v) \<in> set state" by (rule map_of_SomeD)
  with assms have "doWork k = Inr v" by (auto simp: list_all_iff)
  with Some show ?thesis by (simp add: LRUCache_get_def)
qed

lemma parseCacheControl_result:
  "memo_ok dbg memo \<Longrightarrow> fst (parseCacheControl dbg memo header) = parse_header dbg header"
  unfolding memo_ok_def parseCacheControl_def by (rule LRUCache_get_result)

lemma parseCacheControl_memo_ok:
  assumes "memo_ok dbg memo"
  shows "memo_ok dbg (snd (parseCacheControl dbg memo header))"
proof -
  have sub: "list_all P (drop 1 xs)" if "list_all P xs" for P and xs :: "(string \<times> CacheControlValue) list"
    using that by (cases xs) auto
  show ?thesis
  proof (cases "map_of memo header")
    case None
    then show ?thesis using assms sub [of _ memo]
      by (auto simp: parseCacheControl_def LRUCache_get_def memo_ok_def split: sum.split)
  next
    case (Some v)
    then have "(header, v) \<in> set memo" by (rule map_of_SomeD)
    with assms have "parse_header dbg header = Inr v" by (auto simp: memo_ok_def list_all_iff)
    with Some assms show ?thesis
      by (auto simp: parseCacheControl_def LRUCache_get_def memo_ok_def list_all_iff)
  qed
qed

section \<open>Claims about the Cache-Control parser\<close>



lemma digit_char_numerals:
  "digit_char 0 = CHR ''0''" "digit_char 1 = CHR ''1''" "digit_char (Suc 0) = CHR ''1''"
  "digit_char 2 = CHR ''2''" "digit_char 3 = CHR ''3''" "digit_char 4 = CHR ''4''"
  "digit_char 5 = CHR ''5''" "digit_char 6 = CHR ''6''" "digit_char 7 = CHR ''7''"
  "digit_char 8 = CHR ''8''" "digit_char 9 = CHR ''9''"
  by code_simp+

lemma parse_header_max_age:
  "parse_header dbg (''max-age='' @ show_nat N) = Inr [''max-age'' \<mapsto> CCNum (fl (int N))]"
proof -
  have "parse_header dbg (''max-age'' @ ''='' @ show_nat N) =
        (case set_directive dbg ''max-age'' (show_nat N) Map.empty of Inl e \<Rightarrow> Inl e | Inr obj' \<Rightarrow> Inr obj')"
    unfolding parse_header_def
    by (rule cc_loop_directive_end)
       (simp_all add: plain_def show_nat_nonempty list_all_iff,
        use show_nat_digits [of N] dec_digit_plain in \<open>auto simp: list_all_iff plain_def\<close>)
  then show ?thesis
    using fl_nonnegative [of "int N"]
    by (simp add: set_directive_def NUMERIC_KEYS_def parseCacheControlValue_def parseInt_show_nat)
qed

text \<open>
  Claim C7, as amended. For every non-negative integer \<open>N\<close> up to
  \<open>2^53 = 9007199254740992\<close>, written with its decimal digits, parsing the header
  \<^verbatim>\<open>max-age=N\<close> with \<^verbatim>\<open>parseCacheControl\<close> gives an object whose \<^verbatim>\<open>max-age\<close> field is
  exactly \<open>N\<close>. This holds with and without assertions, and whatever the parse memo
  holds, as long as its entries are parse results. Beyond \<open>2^53\<close> the field is the double
  nearest to \<open>N\<close>, which need not be \<open>N\<close> (the counterexample below).
\<close>

theorem parseCacheControl_max_age_roundtrip:
  assumes "memo_ok dbg memo" and "N \<le> 9007199254740992"
  shows "\<exists>obj. fst (parseCacheControl dbg memo (''max-age='' @ show_nat N)) = Inr obj \<and>
               obj ''max-age'' = Some (CCNum (Fin (int N)))"
proof -
  have "fl (int N) = Fin (int N)" using assms(2) by (simp add: fl_exact)
  then show ?thesis
    using assms(1) parse_header_max_age [of dbg N] by (simp add: parseCacheControl_result)
qed

theorem parseCacheControl_max_age_roundtrip_witness:
  "memo_ok True [] \<and> (3600::nat) \<le> 9007199254740992 \<and> show_nat 3600 = ''3600'' \<and>
   (9007199254740992::nat) \<le> 9007199254740992 \<and>
   show_nat 9007199254740992 = ''9007199254740992'' \<and>
   (\<exists>obj. fst (parseCacheControl True [] ''max-age=3600'') = Inr obj \<and>
          obj ''max-age'' = Some (CCNum (Fin 3600))) \<and>
   (\<exists>obj. fst (parseCacheControl True [] ''max-age=9007199254740992'') = Inr obj \<and>
          obj ''max-age'' = Some (CCNum (Fin 9007199254740992)))"
proof -
  have m: "memo_ok True []" by (simp add: memo_ok_def)
  have b1: "(3600::nat) \<le> 9007199254740992" by simp
  have b2: "(9007199254740992::nat) \<le> 9007199254740992" by simp
  have s1: "show_nat 3600 = ''3600''" by (simp add: show_nat.simps digit_char_numerals)
  have s2: "show_nat 9007199254740992 = ''9007199254740992''" by (simp add: show_nat.simps digit_char_numerals)
  show ?thesis
    using m s1 s2 parseCacheControl_max_age_roundtrip [OF m b1]
      parseCacheControl_max_age_roundtrip [OF m b2] by simp
qed

text \<open>
  The claim C7 as stated fails above \<open>2^53\<close>: \<^verbatim>\<open>parseInt\<close> returns a double, and the
  header \<^verbatim>\<open>max-age=9007199254740993\<close> reads back as 9007199254740992.
\<close>

theorem parseCacheControl_max_age_roundtrip_counterexample:
  "show_nat 9007199254740993 = ''9007199254740993'' \<and>
   fst (parseCacheControl True [] ''max-age=9007199254740993'') =
     Inr [''max-age'' \<mapsto> CCNum (Fin 9007199254740992)]"
proof -
  have m: "memo_ok True []" by (simp add: memo_ok_def)
  have s: "show_nat 9007199254740993 = ''9007199254740993''" by (simp add: show_nat.simps digit_char_numerals)
  have "parse_header True (''max-age='' @ show_nat 9007199254740993) =
          Inr [''max-age'' \<mapsto> CCNum (Fin 9007199254740992)]"
    using parse_header_max_age [of True 9007199254740993] by (simp add: fl_above_2_53)
  then have "parse_header True ''max-age=9007199254740993'' =
          Inr [''max-age'' \<mapsto> CCNum (Fin 9007199254740992)]"
    by (simp add: s)
  then show ?thesis using s by (simp add: parseCacheControl_result [OF m])
qed





text \<open>The definitions a concrete parse unfolds when it is computed.\<close>

lemmas parse_run = parseCacheControl_def LRUCache_get_def parse_header_def cc_step_def
  at_last_index_def set_directive_def NUMERIC_KEYS_def parseCacheControlValue_def parseInt_def
  StrWhiteSpaceChar_def is_digit_def digit_value_def mathInt_def fl_exact d_negative_def
  d_nonnegative_def





section \<open>The per-store records\<close>

lemma store_view_put [simp]: "store_view (put_store this store s) store = s"
  by (simp add: store_view_def getStore_def put_store_def)

lemma store_view_getStore [simp]: "store_view (snd (getStore this store)) store = store_view this store"
  by (simp add: store_view_def getStore_def split: option.split)

lemma fst_getStore: "fst (getStore this store) = store_view this store"
  by (simp add: store_view_def)

lemma config_getStore [simp]: "config (snd (getStore this store)) = config this"
  by (simp add: getStore_def split: option.split)

lemma set_Set_add [simp]: "set (Set_add x xs) = insert x (set xs)"
  by (auto simp: Set_add_def)

lemma set_Set_delete [simp]: "set (Set_delete x xs) = set xs - {x}"
  by (auto simp: Set_delete_def)

lemma invalidateRequest_view:
  "store_view (invalidateRequest d store this) store =
     (store_view this store)\<lparr>invalidated := Set_add d (invalidated (store_view this store))\<rparr>"
  by (simp add: invalidateRequest_def split_beta fst_getStore)

lemma fold_invalidate_one:
  "fst (foldl invalidate_one acc ms) = foldl (\<lambda>s m. Set_add m s) (fst acc) ms \<and>
   snd (foldl invalidate_one acc ms) = snd acc @ map (\<lambda>m. (m, ''invalidated'')) ms"
  by (induction ms arbitrary: acc) (simp_all add: invalidate_one_def)

lemma set_fold_Set_add: "set (foldl (\<lambda>s m. Set_add m s) xs ms) = set xs \<union> set ms"
  by (induction ms arbitrary: xs) auto

lemma invalidateRequestsForType_view:
  "store_view (fst (invalidateRequestsForType t store this)) store =
     (case map_of (types (store_view this store)) t of
        None \<Rightarrow> store_view this store
      | Some ms \<Rightarrow> (store_view this store)
          \<lparr>invalidated := foldl (\<lambda>s m. Set_add m s) (invalidated (store_view this store)) ms\<rparr>)"
  by (simp add: invalidateRequestsForType_def split_beta fst_getStore fold_invalidate_one
      split: option.split)

lemma invalidateRequestsForType_invalidated:
  "invalidated_of (fst (invalidateRequestsForType t store this)) store =
     invalidated_of this store \<union> dependents this store t"
  by (simp add: invalidated_of_def dependents_def invalidateRequestsForType_view set_fold_Set_add
      split: option.split)

lemma invalidateRequestsForType_types:
  "types (store_view (fst (invalidateRequestsForType t store this)) store) =
     types (store_view this store)"
  by (simp add: invalidateRequestsForType_view split: option.split)

lemma invalidateRequestsForType_config:
  "config (fst (invalidateRequestsForType t store this)) = config this"
  by (simp add: invalidateRequestsForType_def split_beta put_store_def split: option.split)

lemma dependents_invalidateRequestsForType:
  "dependents (fst (invalidateRequestsForType t store this)) store u = dependents this store u"
  by (simp add: dependents_def invalidateRequestsForType_types)

lemma fold_invalidate_type:
  "invalidated_of (fst (foldl (invalidate_type store) acc ts)) store =
     invalidated_of (fst acc) store \<union> (\<Union>t\<in>set ts. dependents (fst acc) store t) \<and>
   types (store_view (fst (foldl (invalidate_type store) acc ts)) store) =
     types (store_view (fst acc) store) \<and>
   config (fst (foldl (invalidate_type store) acc ts)) = config (fst acc)"
proof (induction ts arbitrary: acc)
  case Nil
  show ?case by simp
next
  case (Cons t ts)
  let ?acc' = "invalidate_type store acc t"
  have f: "fst ?acc' = fst (invalidateRequestsForType t store (fst acc))"
    by (simp add: invalidate_type_def split: prod.split)
  show ?case
    using Cons.IH [of ?acc']
    by (auto simp: f dependents_invalidateRequestsForType invalidateRequestsForType_invalidated
        invalidateRequestsForType_types invalidateRequestsForType_config)
qed

lemma set_created_types: "set (created_types request) = request_types request"
  by (simp add: created_types_def request_types_def set_fold_Set_add)

lemma isHardExpired_invalidated:
  "d \<in> invalidated_of this store \<Longrightarrow> fst (isHardExpired env memo d store this) = Inr True"
  by (simp add: isHardExpired_def invalidated_of_def split_beta fst_getStore)

lemma register_type_invalidated:
  "set (invalidated (register_type d s t)) \<subseteq> set (invalidated s)"
  by (auto simp: register_type_def split: option.split)

lemma fold_register_type_invalidated:
  "set (invalidated (foldl (register_type d) s ts)) \<subseteq> set (invalidated s)"
proof (induction ts arbitrary: s)
  case Nil
  show ?case by simp
next
  case (Cons t ts)
  show ?case using Cons.IH [of "register_type d s t"] register_type_invalidated [of d s t] by auto
qed

lemma didRequest_create:
  assumes "op request = Some ''createRecord''"
  shows "didRequest request resp ident store this =
     (if 200 \<le> statusNumber resp \<and> statusNumber resp < 400
      then foldl (invalidate_type store) (this, []) (created_types request) else (this, []))"
  using assms by (simp add: didRequest_def)

lemma didRequest_other_invalidated:
  assumes "op request \<noteq> Some ''createRecord''"
  shows "invalidated_of (fst (didRequest request resp ident store this)) store \<subseteq> invalidated_of this store
         \<and> snd (didRequest request resp ident store this) = []"
  using assms fold_register_type_invalidated [of _ "store_view this store"]
  by (auto simp: didRequest_def invalidated_of_def split_beta fst_getStore split: option.split)

section \<open>Claims about the invalidation records\<close>

text \<open>
  Claim C3. When the cache of the store has no document for the identifier, or a document
  without a response, \<^verbatim>\<open>isHardExpired\<close> returns true. This holds in every state of the
  policy, so in particular for an identifier that was never invalidated and never passed
  to \<^verbatim>\<open>didRequest\<close>.
\<close>

theorem isHardExpired_no_cache_entry:
  assumes "peekRequest store d = None \<or>
           (\<exists>doc. peekRequest store d = Some doc \<and> response doc = None)"
  shows "fst (isHardExpired env memo d store this) = Inr True"
  using assms by (auto simp: isHardExpired_def split_beta)

theorem isHardExpired_no_cache_entry_witness:
  "peekRequest (store_holding None) ''d1'' = None \<and>
   fst (isHardExpired (scenario_env True 0) [] ''d1'' (store_holding None) (new_policy scenario_config)) = Inr True"
proof -
  have h: "peekRequest (store_holding None) ''d1'' = None" by (simp add: store_holding_def)
  then have "peekRequest (store_holding None) ''d1'' = None \<or>
           (\<exists>doc. peekRequest (store_holding None) ''d1'' = Some doc \<and> response doc = None)" by simp
  from h isHardExpired_no_cache_entry [OF this] show ?thesis by simp
qed


lemma stores_getStore:
  "stores (snd (getStore this store)) =
     (if stores this (store_ref store) = None
      then (stores this)(store_ref store \<mapsto> \<lparr>invalidated = [], types = []\<rparr>) else stores this)"
  by (simp add: getStore_def split: option.split)

lemma store_view_getStore_other:
  "store_view (snd (getStore this store)) other = store_view this other"
  by (simp add: store_view_def getStore_def split: option.split)

lemma isHardExpired_policy:
  "fst (snd (isHardExpired env memo d store this)) = snd (getStore this store)"
  by (simp add: isHardExpired_def split_beta split: option.split)

text \<open>
  Claim C10. \<^verbatim>\<open>isHardExpired\<close> leaves the record of every store as \<^verbatim>\<open>_getStore\<close> gives
  it (the same invalidated set and the same dependency map), and the configuration; the
  map \<^verbatim>\<open>_stores\<close> itself changes only by an empty record for a store that had none.
  \<^verbatim>\<open>isSoftExpired\<close> leaves the policy as it is.
\<close>

theorem queries_leave_invalidation_record:
  "store_view (fst (snd (isHardExpired env memo d store this))) other = store_view this other \<and>
   config (fst (snd (isHardExpired env memo d store this))) = config this \<and>
   stores (fst (snd (isHardExpired env memo d store this))) =
     (if stores this (store_ref store) = None
      then (stores this)(store_ref store \<mapsto> \<lparr>invalidated = [], types = []\<rparr>) else stores this) \<and>
   snd (isSoftExpired env d store this) = this"
  by (simp add: isHardExpired_policy stores_getStore store_view_getStore_other isSoftExpired_def
      split: option.split)


lemma didRequest_create_invalidated:
  assumes "op request = Some ''createRecord''"
    and "200 \<le> statusNumber resp" and "statusNumber resp < 400"
  shows "invalidated_of (fst (didRequest request resp ident store this)) store =
           invalidated_of this store \<union> (\<Union>t\<in>request_types request. dependents this store t)"
  using assms fold_invalidate_type [of store "(this, [])" "created_types request"]
  by (simp add: didRequest_create set_created_types)

lemma didRequest_create_types:
  assumes "op request = Some ''createRecord''"
  shows "types (store_view (fst (didRequest request resp ident store this)) store) =
           types (store_view this store)"
  using assms fold_invalidate_type [of store "(this, [])" "created_types request"]
  by (simp add: didRequest_create)

text \<open>
  Claim C5. When the operation of the request is \<^verbatim>\<open>createRecord\<close> and the status of the
  response is in [200, 400), every identifier registered as dependent on a type of the
  records of the request or of its cache options is in the invalidated set afterwards,
  so \<^verbatim>\<open>isHardExpired\<close> returns true for it. The two branches of \<^verbatim>\<open>didRequest\<close> exclude
  each other: a \<^verbatim>\<open>createRecord\<close> request registers nothing (the dependency map is as
  before), and any other request invalidates nothing and sends no notification.
\<close>

theorem didRequest_createRecord_invalidates:
  "(op request = Some ''createRecord'' \<and> 200 \<le> statusNumber resp \<and> statusNumber resp < 400 \<and>
    t \<in> request_types request \<and> d \<in> dependents this store t \<longrightarrow>
      d \<in> invalidated_of (fst (didRequest request resp ident store this)) store \<and>
      fst (isHardExpired env memo d store (fst (didRequest request resp ident store this))) = Inr True) \<and>
   (op request = Some ''createRecord'' \<longrightarrow>
      types (store_view (fst (didRequest request resp ident store this)) store) =
        types (store_view this store)) \<and>
   (op request \<noteq> Some ''createRecord'' \<longrightarrow>
      invalidated_of (fst (didRequest request resp ident store this)) store \<subseteq> invalidated_of this store \<and>
      snd (didRequest request resp ident store this) = [])"
proof (intro conjI impI)
  assume a: "op request = Some ''createRecord'' \<and> 200 \<le> statusNumber resp \<and> statusNumber resp < 400 \<and>
    t \<in> request_types request \<and> d \<in> dependents this store t"
  then show "d \<in> invalidated_of (fst (didRequest request resp ident store this)) store"
    by (auto simp: didRequest_create_invalidated)
  then show "fst (isHardExpired env memo d store (fst (didRequest request resp ident store this))) = Inr True"
    by (rule isHardExpired_invalidated)
next
  assume "op request = Some ''createRecord''"
  then show "types (store_view (fst (didRequest request resp ident store this)) store) =
        types (store_view this store)"
    by (rule didRequest_create_types)
next
  assume b: "op request \<noteq> Some ''createRecord''"
  show "invalidated_of (fst (didRequest request resp ident store this)) store \<subseteq> invalidated_of this store"
    using didRequest_other_invalidated [OF b] by blast
  show "snd (didRequest request resp ident store this) = []"
    using didRequest_other_invalidated [OF b] by blast
qed

text \<open>The definitions a scenario unfolds when it is computed.\<close>

lemmas run = didRequest_def invalidateRequest_def invalidateRequestsForType_def getStore_def put_store_def
  register_type_def invalidate_type_def invalidate_one_def created_types_def cacheOptions_types_of_def
  statusNumber_def Set_add_def Set_delete_def store_view_def dependents_def invalidated_of_def request_types_def
  query_person_def create_person_def store_holding_def new_policy_def

lemma stores_registered: "stores registered 0 = Some \<lparr>invalidated = [], types = [(''person'', [''d1''])]\<rparr>"
  by (simp add: registered_def run)

theorem didRequest_createRecord_invalidates_witness:
  "op create_person = Some ''createRecord'' \<and>
   op query_person \<noteq> Some ''createRecord'' \<and>
   statusNumber (Some \<lparr>status = 201, headers = None\<rparr>) = 201 \<and>
   ''person'' \<in> request_types create_person \<and>
   ''d1'' \<in> dependents registered (store_holding (Some (document (Some date_only)))) ''person'' \<and>
   fst (isHardExpired (scenario_env True 1699999999000) [] ''d1''
          (store_holding (Some (document (Some date_only)))) registered) = Inr False \<and>
   fst (isHardExpired (scenario_env True 1699999999000) [] ''d1''
          (store_holding (Some (document (Some date_only))))
          (fst (didRequest create_person (Some \<lparr>status = 201, headers = None\<rparr>) None
                 (store_holding (Some (document (Some date_only)))) registered))) = Inr True \<and>
   snd (didRequest query_person (Some \<lparr>status = 200, headers = None\<rparr>) (Some ''d1'')
          (store_holding (Some (document (Some date_only)))) (new_policy scenario_config)) = []"
proof -
  let ?store = "store_holding (Some (document (Some date_only)))"
  let ?r201 = "Some \<lparr>status = 201, headers = None\<rparr>"
  have h1: "op create_person = Some ''createRecord''" by (simp add: create_person_def)
  have h2: "op query_person \<noteq> Some ''createRecord''" by (simp add: query_person_def)
  have h3: "statusNumber ?r201 = 201" by (simp add: statusNumber_def)
  have h4: "''person'' \<in> request_types create_person"
    by (simp add: request_types_def create_person_def cacheOptions_types_of_def)
  have h5: "''d1'' \<in> dependents registered ?store ''person''"
    by (simp add: dependents_def store_view_def getStore_def stores_registered store_holding_def)
  have h6: "fst (isHardExpired (scenario_env True 1699999999000) [] ''d1'' ?store registered) = Inr False"
    by (simp add: isHardExpired_def getStore_def stores_registered store_holding_def document_def isExpired_def
        custom_isExpired_def scenario_config_def registered_def run header_checks_def check_Date_def
        date_only_def present_def scenario_date_def scenario_env_def num_ge_def num_add_def)
  note t = didRequest_createRecord_invalidates
  have a: "fst (isHardExpired (scenario_env True 1699999999000) [] ''d1'' ?store
          (fst (didRequest create_person ?r201 None ?store registered))) = Inr True"
    using t [of create_person ?r201 "''person''" "''d1''" registered ?store None
        "scenario_env True 1699999999000" "[]"] h1 h3 h4 h5 by simp
  have b: "snd (didRequest query_person (Some \<lparr>status = 200, headers = None\<rparr>) (Some ''d1'')
          ?store (new_policy scenario_config)) = []"
    using t [of query_person "Some \<lparr>status = 200, headers = None\<rparr>" _ _ "new_policy scenario_config"
        ?store "Some ''d1''"] h2 by simp
  from h1 h2 h3 h4 h5 h6 a b show ?thesis by simp
qed


subsection \<open>Invalidation and registration\<close>

text \<open>
  An identifier is hard expired as soon as it is invalidated, directly or through a type
  it depends on. A later \<^verbatim>\<open>didRequest\<close> that lists a type takes it out of the
  invalidated set when that type already has an entry in the dependency map of the
  store.
\<close>

lemma invalidateRequest_invalidated:
  "invalidated_of (invalidateRequest d store this) store = insert d (invalidated_of this store)"
  by (simp add: invalidated_of_def invalidateRequest_view)

lemma invalidateRequest_hard_expired:
  "fst (isHardExpired env memo d store (invalidateRequest d store this)) = Inr True"
  by (rule isHardExpired_invalidated) (simp add: invalidateRequest_invalidated)

lemma invalidateRequestsForType_hard_expired:
  "d \<in> dependents this store t \<Longrightarrow>
   fst (isHardExpired env memo d store (fst (invalidateRequestsForType t store this))) = Inr True"
  by (rule isHardExpired_invalidated) (simp add: invalidateRequestsForType_invalidated)

lemma map_of_Map_set: "map_of (Map_set k v m) = (map_of m)(k \<mapsto> v)"
  by (induction m) auto

lemma register_type_keeps_types:
  "map_of (types s) t \<noteq> None \<Longrightarrow> map_of (types (register_type d s u)) t \<noteq> None"
  by (auto simp: register_type_def map_of_Map_set split: option.split)

lemma register_type_removes:
  "map_of (types s) t \<noteq> None \<Longrightarrow> d \<notin> set (invalidated (register_type d s t))"
  by (auto simp: register_type_def)

lemma fold_register_type_removes:
  "t \<in> set ts \<Longrightarrow> map_of (types s) t \<noteq> None \<Longrightarrow>
   d \<notin> set (invalidated (foldl (register_type d) s ts))"
proof (induction ts arbitrary: s)
  case Nil
  then show ?case by simp
next
  case (Cons u ts)
  show ?case
  proof (cases "u = t")
    case True
    have "d \<notin> set (invalidated (register_type d s t))"
      using Cons.prems(2) by (rule register_type_removes)
    then show ?thesis
      using fold_register_type_invalidated [of d "register_type d s t" ts] True by auto
  next
    case False
    with Cons.prems(1) have "t \<in> set ts" by simp
    moreover have "map_of (types (register_type d s u)) t \<noteq> None"
      using Cons.prems(2) by (rule register_type_keeps_types)
    ultimately show ?thesis using Cons.IH by simp
  qed
qed

lemma didRequest_registers_on_known_type:
  assumes "op request \<noteq> Some ''createRecord''"
    and "cacheOptions_types_of request = Some ts" and "t \<in> set ts"
    and "map_of (types (store_view this store)) t \<noteq> None"
  shows "d \<notin> invalidated_of (fst (didRequest request resp (Some d) store this)) store"
proof -
  have "ts \<noteq> []" using assms(3) by auto
  then show ?thesis
    using assms(1,2) fold_register_type_removes [OF assms(3,4), of d]
    by (simp add: didRequest_def invalidated_of_def split_beta fst_getStore)
qed

lemma stores_invalidated_then_fetched: "stores invalidated_then_fetched 0 = Some \<lparr>invalidated = [''d1''], types = [(''person'', [''d1''])]\<rparr>"
  by (simp add: invalidated_then_fetched_def run)

text \<open>
  Claim C1, at the input where the code departs from it. \<^verbatim>\<open>invalidateRequest\<close> puts
  \<^verbatim>\<open>d1\<close> in the invalidated set; the query then registers \<^verbatim>\<open>d1\<close> under the type
  \<^verbatim>\<open>person\<close>, which had no entry in the dependency map, so the branch that creates the
  entry runs, and that branch does not delete from the invalidated set. \<^verbatim>\<open>d1\<close> is
  registered and still invalidated, and \<^verbatim>\<open>isHardExpired\<close> returns true although the
  cached response is fresh: for the same store and clock it returns false when \<^verbatim>\<open>d1\<close>
  was registered without having been invalidated.
\<close>

theorem invalidated_stays_after_first_registration:
  "invalidated (store_view invalidated_then_fetched (store_holding (Some (document (Some date_only))))) = [''d1''] \<and>
   types (store_view invalidated_then_fetched (store_holding (Some (document (Some date_only))))) = [(''person'', [''d1''])] \<and>
   fst (isHardExpired (scenario_env True 1699999999000) [] ''d1''
          (store_holding (Some (document (Some date_only)))) invalidated_then_fetched) = Inr True \<and>
   fst (isHardExpired (scenario_env True 1699999999000) [] ''d1''
          (store_holding (Some (document (Some date_only)))) registered) = Inr False"
  by (simp add: isHardExpired_def getStore_def stores_registered stores_invalidated_then_fetched store_holding_def document_def isExpired_def
        custom_isExpired_def scenario_config_def registered_def run header_checks_def check_Date_def
        date_only_def present_def scenario_date_def scenario_env_def num_ge_def num_add_def)

section \<open>Claims about the header checks\<close>

lemma isHardExpired_cached:
  assumes "d \<notin> invalidated_of this store"
    and "peekRequest store d = Some doc" and "response doc = Some r"
  shows "fst (isHardExpired env memo d store this) = fst (isExpired env memo doc (config this))"
  using assms
  by (simp add: isHardExpired_def invalidated_of_def split_beta fst_getStore)

lemma isExpired_cache_control_branch:
  assumes "custom_isExpired cfg doc = None"
    and "response doc = Some r" and "headers r = Some hs"
    and "constraints cfg = Some c" and "constraint_headers c = Some flags"
    and "use_Cache_Control flags"
    and "check_X_WarpDrive_Expires env flags hs = None"
    and "present (Cache_Control hs) = Some cc" and "present (Age hs) = Some age"
    and "present (Date hs) = Some date"
    and "memo_ok (DEBUG env) memo" and "parse_header (DEBUG env) cc = Inr ccv"
  shows "fst (isExpired env memo doc cfg) =
         (case cache_control_result env ccv age date of
            Inl e \<Rightarrow> Inl e
          | Inr (Some result) \<Rightarrow> Inr result
          | Inr None \<Rightarrow>
              Inr (case check_Expires env flags hs of
                     Some result \<Rightarrow> result | None \<Rightarrow> check_Date env cfg hs))"
proof -
  have p: "fst (parseCacheControl (DEBUG env) memo cc) = Inr ccv"
    using assms(11,12) by (simp add: parseCacheControl_result)
  obtain memo' where pc: "parseCacheControl (DEBUG env) memo cc = (Inr ccv, memo')"
    using p by (cases "parseCacheControl (DEBUG env) memo cc") auto
  have cc: "check_Cache_Control env memo flags hs = (cache_control_result env ccv age date, memo')"
    using assms(6,8,9,10) pc by (simp add: check_Cache_Control_def)
  show ?thesis
    using assms(1-5,7) cc
    by (simp add: isExpired_def header_checks_def split: sum.split option.split)
qed

lemma cache_control_result_exact:
  assumes "js_or (ccv ''max-age'') (ccv ''s-maxage'') = Some (CCNum (Fin m))" and "m \<noteq> 0"
    and "parseInt age (Some 10) = Fin a" and "0 \<le> a"
    and "getTime env date = Some t"
    and "\<bar>(m - a) * 1000\<bar> \<le> 9007199254740992"
    and "\<bar>t + (m - a) * 1000\<bar> \<le> 9007199254740992"
  shows "cache_control_result env ccv age date = Inr (Some (t + (m - a) * 1000 \<le> now env))"
proof -
  have "\<bar>m - a\<bar> \<le> \<bar>(m - a) * 1000\<bar>" by (simp add: abs_mult)
  with assms(6) have "\<bar>m - a\<bar> \<le> 9007199254740992" by linarith
  then have s: "fl (m - a) = Fin (m - a)" by (rule fl_exact)
  have p: "fl ((m - a) * 1000) = Fin ((m - a) * 1000)" using assms(6) by (rule fl_exact)
  have q: "fl (t + (m - a) * 1000) = Fin (t + (m - a) * 1000)" using assms(7) by (rule fl_exact)
  have e1: "d_sub (Fin m) (Fin a) = Fin (m - a)" by (simp add: d_sub_def s)
  have e2: "times_1000 (Fin (m - a)) = Fin ((m - a) * 1000)"
    by (simp only: times_1000_def double.simps p)
  have e3: "d_add (Some t) (Fin ((m - a) * 1000)) = Fin (t + (m - a) * 1000)"
    by (simp only: d_add_def option.simps double.simps q)
  have e4: "d_ge (now env) (Fin (t + (m - a) * 1000)) = (t + (m - a) * 1000 \<le> now env)"
    by (simp add: d_ge_def)
  have main: "d_ge (now env) (d_add (Some t) (times_1000 (d_sub (Fin m) (Fin a)))) =
      (t + (m - a) * 1000 \<le> now env)"
    by (simp only: e1 e2 e3 e4)
  show ?thesis
    using assms(1-5)
    by (simp add: cache_control_result_def ccval_truthy_def d_truthy_def ccval_number_def
        d_nonnegative_def main)
qed

lemma no_X_WarpDrive_Expires:
  "(use_X_WarpDrive_Expires flags \<longrightarrow> present (X_WarpDrive_Expires hs) = None) \<Longrightarrow>
   check_X_WarpDrive_Expires env flags hs = None"
  by (simp add: check_X_WarpDrive_Expires_def)

text \<open>
  Claim C2, as amended. Take a cached response with the headers Cache-Control, Age and Date
  (each non-empty), an identifier that is not invalidated, the Cache-Control constraint
  enabled, no verdict of a custom predicate, and the X-WarpDrive-Expires constraint off
  or its header absent. Let the Cache-Control header parse without an assertion failure
  (as every header does in a build that strips assertions), let \<^verbatim>\<open>parseInt\<close> read the
  Age header as a non-negative number \<open>a\<close> and let the Date header be a date, of time
  \<open>t\<close>. Let \<open>m\<close> be the selected \<^verbatim>\<open>maxAge\<close>: the \<^verbatim>\<open>max-age\<close> directive when it is a number
  other than 0, and the \<^verbatim>\<open>s-maxage\<close> directive, a number other than 0, when \<^verbatim>\<open>max-age\<close>
  is absent or 0. Let \<open>(m - a) * 1000\<close> and \<open>t + (m - a) * 1000\<close> be at most \<open>2^53\<close> in
  magnitude, so that the double arithmetic of the code is exact. Then
  \<^verbatim>\<open>isHardExpired\<close> returns true exactly when \<open>now \<ge> t + (m - a) * 1000\<close>. The witness
  is Scenario C.
\<close>

theorem isHardExpired_cache_control:
  assumes "d \<notin> invalidated_of this store"
    and "peekRequest store d = Some doc" and "response doc = Some r" and "headers r = Some hs"
    and "custom_isExpired (config this) doc = None"
    and "constraints (config this) = Some c" and "constraint_headers c = Some flags"
    and "use_Cache_Control flags"
    and "use_X_WarpDrive_Expires flags \<longrightarrow> present (X_WarpDrive_Expires hs) = None"
    and "present (Cache_Control hs) = Some cc" and "present (Age hs) = Some age"
    and "present (Date hs) = Some date"
    and "memo_ok (DEBUG env) memo" and "parse_header (DEBUG env) cc = Inr ccv"
    and "parseInt age (Some 10) = Fin a" and "0 \<le> a"
    and "getTime env date = Some t"
    and "\<bar>(m - a) * 1000\<bar> \<le> 9007199254740992"
    and "\<bar>t + (m - a) * 1000\<bar> \<le> 9007199254740992"
  shows "(ccv ''max-age'' = Some (CCNum (Fin m)) \<and> m \<noteq> 0 \<longrightarrow>
            fst (isHardExpired env memo d store this) = Inr (t + (m - a) * 1000 \<le> now env)) \<and>
         ((ccv ''max-age'' = None \<or> ccv ''max-age'' = Some (CCNum (Fin 0))) \<and>
          ccv ''s-maxage'' = Some (CCNum (Fin m)) \<and> m \<noteq> 0 \<longrightarrow>
            fst (isHardExpired env memo d store this) = Inr (t + (m - a) * 1000 \<le> now env))"
proof -
  have x: "check_X_WarpDrive_Expires env flags hs = None"
    using assms(9) by (rule no_X_WarpDrive_Expires)
  have e: "fst (isHardExpired env memo d store this) =
         (case cache_control_result env ccv age date of
            Inl e \<Rightarrow> Inl e
          | Inr (Some result) \<Rightarrow> Inr result
          | Inr None \<Rightarrow>
              Inr (case check_Expires env flags hs of
                     Some result \<Rightarrow> result | None \<Rightarrow> check_Date env (config this) hs))"
    using isHardExpired_cached [OF assms(1-3)]
      isExpired_cache_control_branch [OF assms(5) assms(3) assms(4) assms(6-8) x assms(10-14)]
    by simp
  have r: "cache_control_result env ccv age date = Inr (Some (t + (m - a) * 1000 \<le> now env))"
    if "js_or (ccv ''max-age'') (ccv ''s-maxage'') = Some (CCNum (Fin m))" and "m \<noteq> 0"
    using that assms(15-19) by (rule cache_control_result_exact)
  show ?thesis
  proof (intro conjI impI)
    assume a: "ccv ''max-age'' = Some (CCNum (Fin m)) \<and> m \<noteq> 0"
    then have "js_or (ccv ''max-age'') (ccv ''s-maxage'') = Some (CCNum (Fin m))"
      by (simp add: js_or_def ccval_truthy_def d_truthy_def)
    with a show "fst (isHardExpired env memo d store this) = Inr (t + (m - a) * 1000 \<le> now env)"
      by (simp add: e r)
  next
    assume a: "(ccv ''max-age'' = None \<or> ccv ''max-age'' = Some (CCNum (Fin 0))) \<and>
          ccv ''s-maxage'' = Some (CCNum (Fin m)) \<and> m \<noteq> 0"
    then have "js_or (ccv ''max-age'') (ccv ''s-maxage'') = Some (CCNum (Fin m))"
      by (auto simp: js_or_def ccval_truthy_def d_truthy_def)
    with a show "fst (isHardExpired env memo d store this) = Inr (t + (m - a) * 1000 \<le> now env)"
      by (simp add: e r)
  qed
qed

lemma parse_max_age_100:
  "parse_header True ''max-age=100'' = Inr [''max-age'' \<mapsto> CCNum (Fin 100)]"
  by (simp add: parse_run)

lemma parse_max_age_0: "parse_header True ''max-age=0'' = Inr [''max-age'' \<mapsto> CCNum (Fin 0)]"
  by (simp add: parse_run)

lemma parseInt_150: "parseInt ''150'' (Some 10) = Fin 150"
  by (simp add: parse_run)

lemma parseInt_0: "parseInt ''0'' (Some 10) = Fin 0"
  by (simp add: parse_run)

lemma parse_s_maxage_100:
  "parse_header True ''s-maxage=100'' = Inr [''s-maxage'' \<mapsto> CCNum (Fin 100)]"
  by (simp add: parse_run)

theorem isHardExpired_cache_control_witness:
  "''d1'' \<notin> invalidated_of (new_policy cache_control_config)
             (store_holding (Some (document (Some (cache_control_headers ''max-age=100'' ''150''))))) \<and>
   parse_header True ''max-age=100'' = Inr [''max-age'' \<mapsto> CCNum (Fin 100)] \<and>
   parse_header True ''s-maxage=100'' = Inr [''s-maxage'' \<mapsto> CCNum (Fin 100)] \<and>
   parseInt ''150'' (Some 10) = Fin 150 \<and>
   getTime (scenario_env True (1700000000000 - 10000)) scenario_date =
     Some (now (scenario_env True (1700000000000 - 10000)) - 10000) \<and>
   \<bar>(100 - 150) * 1000 :: int\<bar> \<le> 9007199254740992 \<and>
   \<bar>(1700000000000 - 10000) + (100 - 150) * 1000 :: int\<bar> \<le> 9007199254740992 \<and>
   fst (isHardExpired (scenario_env True (1700000000000 - 10000)) [] ''d1''
          (store_holding (Some (document (Some (cache_control_headers ''max-age=100'' ''150'')))))
          (new_policy cache_control_config)) = Inr True \<and>
   fst (isHardExpired (scenario_env True (1700000000000 - 10000)) [] ''d1''
          (store_holding (Some (document (Some (cache_control_headers ''s-maxage=100'' ''150'')))))
          (new_policy cache_control_config)) = Inr True"
proof -
  let ?pol = "new_policy cache_control_config"
  let ?env = "scenario_env True (1700000000000 - 10000)"
  let ?flags = "\<lparr>use_Cache_Control = True, use_Expires = False, use_X_WarpDrive_Expires = False\<rparr>"
  let ?c = "\<lparr>constraint_headers = Some ?flags, constraint_isExpired = None\<rparr>"
  have ctx: "''d1'' \<notin> invalidated_of ?pol
               (store_holding (Some (document (Some (cache_control_headers cc ''150'')))))"
    "peekRequest (store_holding (Some (document (Some (cache_control_headers cc ''150''))))) ''d1'' =
       Some (document (Some (cache_control_headers cc ''150'')))"
    "response (document (Some (cache_control_headers cc ''150''))) =
       Some \<lparr>status = 200, headers = Some (cache_control_headers cc ''150'')\<rparr>"
    "headers \<lparr>status = 200, headers = Some (cache_control_headers cc ''150'')\<rparr> =
       Some (cache_control_headers cc ''150'')"
    "custom_isExpired (config ?pol) (document (Some (cache_control_headers cc ''150''))) = None"
    "constraints (config ?pol) = Some ?c"
    "constraint_headers ?c = Some ?flags"
    "use_Cache_Control ?flags"
    "use_X_WarpDrive_Expires ?flags \<longrightarrow>
       present (X_WarpDrive_Expires (cache_control_headers cc ''150'')) = None"
    "present (Age (cache_control_headers cc ''150'')) = Some ''150''"
    "present (Date (cache_control_headers cc ''150'')) = Some scenario_date"
    "memo_ok (DEBUG ?env) []" for cc
    by (simp_all add: invalidated_of_def store_view_def getStore_def new_policy_def
        store_holding_def document_def custom_isExpired_def cache_control_config_def
        present_def cache_control_headers_def scenario_date_def memo_ok_def)
  have pc: "present (Cache_Control (cache_control_headers ''max-age=100'' ''150'')) = Some ''max-age=100''"
    "present (Cache_Control (cache_control_headers ''s-maxage=100'' ''150'')) = Some ''s-maxage=100''"
    by (simp_all add: present_def cache_control_headers_def)
  have p1: "parse_header (DEBUG ?env) ''max-age=100'' = Inr [''max-age'' \<mapsto> CCNum (Fin 100)]"
    by (simp add: scenario_env_def parse_max_age_100)
  have p2: "parse_header (DEBUG ?env) ''s-maxage=100'' = Inr [''s-maxage'' \<mapsto> CCNum (Fin 100)]"
    by (simp add: scenario_env_def parse_s_maxage_100)
  have a: "parseInt ''150'' (Some 10) = Fin 150" by (rule parseInt_150)
  have z: "(0::int) \<le> 150" by simp
  have g: "getTime ?env scenario_date = Some (1700000000000 - 10000)"
    by (simp add: scenario_env_def)
  have b1: "\<bar>(100 - 150) * 1000 :: int\<bar> \<le> 9007199254740992" by simp
  have b2: "\<bar>(1700000000000 - 10000) + (100 - 150) * 1000 :: int\<bar> \<le> 9007199254740992" by simp
  note t1 = isHardExpired_cache_control [OF ctx(1-9) pc(1) ctx(10-12) p1 a z g b1 b2]
  note t2 = isHardExpired_cache_control [OF ctx(1-9) pc(2) ctx(10-12) p2 a z g b1 b2]
  have r1: "fst (isHardExpired ?env [] ''d1''
          (store_holding (Some (document (Some (cache_control_headers ''max-age=100'' ''150'')))))
          ?pol) = Inr True"
    using t1 by (simp add: scenario_env_def)
  have r2: "fst (isHardExpired ?env [] ''d1''
          (store_holding (Some (document (Some (cache_control_headers ''s-maxage=100'' ''150'')))))
          ?pol) = Inr True"
    using t2 by (simp add: scenario_env_def)
  from ctx(1) [of "''max-age=100''"] p1 p2 a g r1 r2 show ?thesis by (simp add: scenario_env_def)
qed

text \<open>
  The claim C2 as stated fails when \<^verbatim>\<open>max-age\<close> is 0: with \<^verbatim>\<open>Cache-Control: max-age=0\<close>,
  \<^verbatim>\<open>Age: 0\<close> and a Date header one second old, the time \<open>Date + (0 - 0) * 1000\<close> has
  passed, but \<^verbatim>\<open>if (maxAge)\<close> skips the check and the Date header with the hard expiry
  of 60000 ms decides: not expired.
\<close>

theorem isHardExpired_cache_control_counterexample:
  "parse_header True ''max-age=0'' = Inr [''max-age'' \<mapsto> CCNum (Fin 0)] \<and>
   parseInt ''0'' (Some 10) = Fin 0 \<and>
   getTime (scenario_env True (1700000000000 - 1000)) scenario_date = Some (1700000000000 - 1000) \<and>
   (1700000000000 - 1000) + (0 - 0) * 1000 \<le> now (scenario_env True (1700000000000 - 1000)) \<and>
   fst (isHardExpired (scenario_env True (1700000000000 - 1000)) [] ''d1''
          (store_holding (Some (document (Some (cache_control_headers ''max-age=0'' ''0'')))))
          (new_policy cache_control_config)) = Inr False"
proof -
  have "fst (isHardExpired (scenario_env True (1700000000000 - 1000)) [] ''d1''
          (store_holding (Some (document (Some (cache_control_headers ''max-age=0'' ''0'')))))
          (new_policy cache_control_config)) = Inr False"
    by (simp add: isHardExpired_def getStore_def new_policy_def store_holding_def document_def
        isExpired_def custom_isExpired_def cache_control_config_def header_checks_def
        check_X_WarpDrive_Expires_def check_Cache_Control_def cache_control_headers_def present_def
        scenario_date_def scenario_env_def parseCacheControl_def LRUCache_get_def parse_max_age_0
        cache_control_result_def js_or_def ccval_truthy_def d_truthy_def check_Expires_def
        check_Date_def num_ge_def num_add_def)
  then show ?thesis
    by (simp add: parse_max_age_0 parseInt_0 scenario_env_def)
qed

lemma isExpired_date_only:
  assumes "constraints cfg = None" and "response doc = Some r" and "headers r = Some hs"
  shows "fst (isExpired env memo doc cfg) = Inr (check_Date env cfg hs)"
  using assms by (simp add: isExpired_def custom_isExpired_def header_checks_def)

text \<open>
  Claim C4. With the configuration \<^verbatim>\<open>{apiCacheSoftExpires: 30000, apiCacheHardExpires: 60000}\<close>
  (no constraints), outside a test environment, for an identifier that is not invalidated
  and whose cached response carries only a Date header: when the Date header is 45000 ms
  old \<^verbatim>\<open>isHardExpired\<close> returns false and \<^verbatim>\<open>isSoftExpired\<close> returns true (Scenario A),
  and when it is 70000 ms old \<^verbatim>\<open>isHardExpired\<close> returns true (Scenario B).
\<close>

theorem date_only_scenarios:
  assumes "\<not> TESTING env"
    and "apiCacheSoftExpires (config this) = 30000"
    and "apiCacheHardExpires (config this) = 60000"
    and "constraints (config this) = None"
    and "d \<notin> invalidated_of this store"
    and "peekRequest store d = Some doc" and "response doc = Some r"
    and "headers r = Some \<lparr>Date = Some date, Age = None, Cache_Control = None, Expires = None,
           X_WarpDrive_Expires = None\<rparr>"
    and "date \<noteq> []"
  shows "(getTime env date = Some (now env - 45000) \<longrightarrow>
           fst (isHardExpired env memo d store this) = Inr False \<and>
           fst (isSoftExpired env d store this) = Inr True) \<and>
         (getTime env date = Some (now env - 70000) \<longrightarrow>
           fst (isHardExpired env memo d store this) = Inr True)"
proof -
  let ?hs = "\<lparr>Date = Some date, Age = None, Cache_Control = None, Expires = None,
           X_WarpDrive_Expires = None\<rparr>"
  have h: "fst (isHardExpired env memo d store this) = Inr (check_Date env (config this) ?hs)"
    using isHardExpired_cached [OF assms(5-7)] isExpired_date_only [OF assms(4) assms(7) assms(8)]
    by simp
  have p: "present (Date ?hs) = Some date" using assms(9) by (simp add: present_def)
  have s: "fst (isSoftExpired env d store this) =
           Inr (num_ge (now env) (num_add (getTime env date) 30000))"
    using assms(1,2,6,7,8) p by (simp add: isSoftExpired_def)
  show ?thesis
    using assms(1,3) p by (auto simp: h s check_Date_def num_ge_def num_add_def)
qed

theorem date_only_scenarios_witness:
  "\<not> TESTING (scenario_env True (1700000000000 - 45000)) \<and>
   apiCacheSoftExpires (config (new_policy scenario_config)) = 30000 \<and>
   apiCacheHardExpires (config (new_policy scenario_config)) = 60000 \<and>
   ''d1'' \<notin> invalidated_of (new_policy scenario_config) (store_holding (Some (document (Some date_only)))) \<and>
   getTime (scenario_env True (1700000000000 - 45000)) scenario_date =
     Some (now (scenario_env True (1700000000000 - 45000)) - 45000) \<and>
   getTime (scenario_env True (1700000000000 - 70000)) scenario_date =
     Some (now (scenario_env True (1700000000000 - 70000)) - 70000) \<and>
   fst (isHardExpired (scenario_env True (1700000000000 - 45000)) [] ''d1''
          (store_holding (Some (document (Some date_only)))) (new_policy scenario_config)) = Inr False \<and>
   fst (isSoftExpired (scenario_env True (1700000000000 - 45000)) ''d1''
          (store_holding (Some (document (Some date_only)))) (new_policy scenario_config)) = Inr True \<and>
   fst (isHardExpired (scenario_env True (1700000000000 - 70000)) [] ''d1''
          (store_holding (Some (document (Some date_only)))) (new_policy scenario_config)) = Inr True"
proof -
  let ?doc = "document (Some date_only)"
  let ?store = "store_holding (Some ?doc)"
  let ?pol = "new_policy scenario_config"
  let ?A = "scenario_env True (1700000000000 - 45000)"
  let ?B = "scenario_env True (1700000000000 - 70000)"
  have h1: "\<not> TESTING ?A" "\<not> TESTING ?B" by (simp_all add: scenario_env_def)
  have h2: "apiCacheSoftExpires (config ?pol) = 30000"
    by (simp add: new_policy_def scenario_config_def)
  have h3: "apiCacheHardExpires (config ?pol) = 60000"
    by (simp add: new_policy_def scenario_config_def)
  have h4: "constraints (config ?pol) = None"
    by (simp add: new_policy_def scenario_config_def)
  have h5: "''d1'' \<notin> invalidated_of ?pol ?store"
    by (simp add: invalidated_of_def store_view_def getStore_def new_policy_def store_holding_def)
  have h6: "peekRequest ?store ''d1'' = Some ?doc" by (simp add: store_holding_def)
  have h7: "response ?doc = Some \<lparr>status = 200, headers = Some date_only\<rparr>"
    by (simp add: document_def)
  have h8: "headers \<lparr>status = 200, headers = Some date_only\<rparr> =
      Some \<lparr>Date = Some scenario_date, Age = None, Cache_Control = None, Expires = None,
           X_WarpDrive_Expires = None\<rparr>"
    by (simp add: date_only_def)
  have h9: "scenario_date \<noteq> []" by (simp add: scenario_date_def)
  have gA: "getTime ?A scenario_date = Some (now ?A - 45000)" by (simp add: scenario_env_def)
  have gB: "getTime ?B scenario_date = Some (now ?B - 70000)" by (simp add: scenario_env_def)
  note tA = date_only_scenarios [OF h1(1) h2 h3 h4 h5 h6 h7 h8 h9, of "[]"]
  note tB = date_only_scenarios [OF h1(2) h2 h3 h4 h5 h6 h7 h8 h9, of "[]"]
  from tA gA have a: "fst (isHardExpired ?A [] ''d1'' ?store ?pol) = Inr False \<and>
           fst (isSoftExpired ?A ''d1'' ?store ?pol) = Inr True" by blast
  from tB gB have b: "fst (isHardExpired ?B [] ''d1'' ?store ?pol) = Inr True" by blast
  from h1 h2 h3 h5 gA gB a b show ?thesis by simp
qed





section \<open>The constructor\<close>

text \<open>
  Claim C8, as amended. In a build that keeps assertions, the constructor throws an
  assertion failure, and so returns no policy, whenever the configuration is missing
  (falsy) or one of the two durations is not of type number. When both durations are
  numbers the construction succeeds in every build and stores the configuration, with no
  store seen yet. In a build that strips assertions the construction always succeeds and
  stores whatever it was given.
\<close>

theorem CachePolicy_constructor_checks:
  "(\<not> (config_truthy (selected_config args) \<and> soft_is_number (selected_config args) \<and>
        hard_is_number (selected_config args)) \<longrightarrow>
      (\<exists>msg. CachePolicy_constructor True args = Inl (AssertionFailed msg))) \<and>
   (soft_is_number (selected_config args) \<and> hard_is_number (selected_config args) \<longrightarrow>
      CachePolicy_constructor dbg args =
        Inr \<lparr>config = selected_config args, stores = Map.empty\<rparr>) \<and>
   CachePolicy_constructor False args = Inr \<lparr>config = selected_config args, stores = Map.empty\<rparr>"
  by (auto simp: CachePolicy_constructor_def soft_is_number_def hard_is_number_def config_truthy_def
      split: config_arg.splits)

theorem CachePolicy_constructor_checks_witness:
  "\<not> config_truthy (selected_config []) \<and>
   (\<exists>msg. CachePolicy_constructor True [] = Inl (AssertionFailed msg)) \<and>
   soft_is_number (selected_config [Object scenario_config_arg]) \<and>
   hard_is_number (selected_config [Object scenario_config_arg]) \<and>
   CachePolicy_constructor True [Object scenario_config_arg] =
     Inr \<lparr>config = Object scenario_config_arg, stores = Map.empty\<rparr>"
proof -
  have h1: "\<not> config_truthy (selected_config [])"
    by (simp add: config_truthy_def selected_config_def js_truthy_def)
  have h2: "soft_is_number (selected_config [Object scenario_config_arg])"
    by (simp add: soft_is_number_def selected_config_def scenario_config_arg_def typeof_number_def)
  have h3: "hard_is_number (selected_config [Object scenario_config_arg])"
    by (simp add: hard_is_number_def selected_config_def scenario_config_arg_def typeof_number_def)
  have s: "selected_config [Object scenario_config_arg] = Object scenario_config_arg"
    by (simp add: selected_config_def)
  from CachePolicy_constructor_checks [of "[]"] h1
  have a: "\<exists>msg. CachePolicy_constructor True [] = Inl (AssertionFailed msg)" by blast
  from CachePolicy_constructor_checks [of "[Object scenario_config_arg]" True] h2 h3
  have b: "CachePolicy_constructor True [Object scenario_config_arg] =
     Inr \<lparr>config = Object scenario_config_arg, stores = Map.empty\<rparr>" by (simp add: s)
  from h1 h2 h3 a b show ?thesis by simp
qed

text \<open>
  The claim C8 as stated fails in a build that strips assertions: without an argument,
  and with durations that are a string and \<^verbatim>\<open>undefined\<close>, the constructor returns a policy.
\<close>

theorem CachePolicy_constructor_counterexample:
  "CachePolicy_constructor False [] = Inr \<lparr>config = Primitive JUndefined, stores = Map.empty\<rparr> \<and>
   CachePolicy_constructor False
     [Object \<lparr>apiCacheSoftExpires = JString ''30000'', apiCacheHardExpires = JUndefined,
              disableTestOptimization = False, constraints = None\<rparr>] =
     Inr \<lparr>config = Object \<lparr>apiCacheSoftExpires = JString ''30000'', apiCacheHardExpires = JUndefined,
              disableTestOptimization = False, constraints = None\<rparr>, stores = Map.empty\<rparr>"
  by (simp add: CachePolicy_constructor_def selected_config_def)

end
